theory Spec2Isabelle
  imports Complex_Main
begin

section \<open>Conventions of the embedding\<close>

text \<open>
  The health monitor is a set of Python classes that mutate their fields on every tick.
  Each class becomes a record, each method a function from the old record (and the
  method's arguments) to the new record and the returned value.

  \<^item> Python floats (clock readings, eye-aspect ratios, angles, scores) are modelled as
    \<^typ>\<open>real\<close>: rounding, infinities and NaN are outside the model.
  \<^item> Every method reads the wall clock through \<^verbatim>\<open>time.time()\<close>. The reading is the
    explicit argument \<open>now\<close> of the method; all readings taken inside one call are the
    same instant. The calendar date (\<^verbatim>\<open>time.strftime\<close>, \<^verbatim>\<open>datetime.now().date()\<close>)
    is the explicit argument \<open>today\<close>, the ordinal of the day; dates are only compared
    for equality.
  \<^item> \<^verbatim>\<open>deque(maxlen=n)\<close> is a list whose oldest entries are dropped on overflow.
  \<^item> Python truthiness of an \<^verbatim>\<open>Optional[float]\<close> (\<^verbatim>\<open>if x:\<close>, \<^verbatim>\<open>x or 0\<close>) is false
    for \<^verbatim>\<open>None\<close> and for \<^verbatim>\<open>0.0\<close>.
\<close>

definition deque_append :: "nat \<Rightarrow> 'a list \<Rightarrow> 'a \<Rightarrow> 'a list" where
  "deque_append maxlen xs x = (let ys = xs @ [x] in drop (length ys - maxlen) ys)"

definition dict_get :: "('k \<rightharpoonup> 'v) \<Rightarrow> 'k \<Rightarrow> 'v \<Rightarrow> 'v" where
  "dict_get m k d = (case m k of None \<Rightarrow> d | Some v \<Rightarrow> v)"

definition truthy :: "real option \<Rightarrow> bool" where
  "truthy x = (case x of None \<Rightarrow> False | Some v \<Rightarrow> v \<noteq> 0)"

definition or_zero :: "real option \<Rightarrow> real" where
  "or_zero x = (case x of None \<Rightarrow> 0 | Some v \<Rightarrow> v)"

section \<open>alert\_system.py\<close>

datatype alert_type = EYE_STRAIN | POSTURE | BREAK_NEEDED | DISTANCE | BLINK_REMINDER

datatype alert_severity = INFO | WARNING | CRITICAL

record alert =
  alert_type :: alert_type
  severity :: alert_severity
  title :: string
  message :: string
  recommendation :: string
  timestamp :: real
  acknowledged :: bool
  escalation_level :: int

text \<open>
  Alert objects are shared: the same object sits in \<^verbatim>\<open>active_alerts\<close>, in
  \<^verbatim>\<open>alert_history\<close> and in the hands of the caller, and \<^verbatim>\<open>acknowledge_alert\<close>
  mutates it in place. The record therefore carries a store \<open>objects\<close> of all alerts
  allocated so far; a reference is an index into it, and the two lists hold references.
  A Python reference always denotes an object, so every reference \<open>r\<close> handed to a
  method satisfies \<open>r < length (objects s)\<close>.

  The registered callbacks only forward the new alert to a desktop notification and do
  not touch the engine; they are left out.
\<close>

type_synonym alert_ref = nat

record alert_system =
  objects :: "alert list"
  active_alerts :: "alert_ref list"
  alert_history :: "alert_ref list"
  last_alert_times :: "alert_type \<rightharpoonup> real"
  escalation_counts :: "alert_type \<rightharpoonup> int"
  pending_escalations :: "alert_type \<rightharpoonup> real"
  is_paused :: bool
  pause_until :: "real option"
  alerts_today :: int
  last_reset_date :: nat

definition all_alert_types :: "alert_type list" where
  "all_alert_types = [EYE_STRAIN, POSTURE, BREAK_NEEDED, DISTANCE, BLINK_REMINDER]"

definition COOLDOWN_PERIODS :: "alert_type \<rightharpoonup> real" where
  "COOLDOWN_PERIODS = map_of
     [(EYE_STRAIN, 120), (POSTURE, 60), (BREAK_NEEDED, 300), (DISTANCE, 30),
      (BLINK_REMINDER, 45)]"

definition MAX_ESCALATION :: int where
  "MAX_ESCALATION = 3"

definition ESCALATION_INTERVAL :: real where
  "ESCALATION_INTERVAL = 60"

definition alert_system_init :: "nat \<Rightarrow> alert_system" where
  "alert_system_init today =
     \<lparr> objects = [], active_alerts = [], alert_history = [],
       last_alert_times = map_of (map (\<lambda>t. (t, 0)) all_alert_types),
       escalation_counts = map_of (map (\<lambda>t. (t, 0)) all_alert_types),
       pending_escalations = Map.empty,
       is_paused = False, pause_until = None,
       alerts_today = 0, last_reset_date = today \<rparr>"

text \<open>\<^verbatim>\<open>self.COOLDOWN_PERIODS.get(alert_type, 60)\<close>\<close>

definition cooldown_of :: "alert_type \<Rightarrow> real" where
  "cooldown_of ty = dict_get COOLDOWN_PERIODS ty 60"

text \<open>The part of \<^verbatim>\<open>can_send_alert\<close> after the pause check.\<close>

definition cooldown_ok :: "alert_system \<Rightarrow> real \<Rightarrow> alert_type \<Rightarrow> bool" where
  "cooldown_ok s now ty =
     (let last_time = dict_get (last_alert_times s) ty 0;
          cooldown = cooldown_of ty
      in now - last_time \<ge> cooldown)"

definition can_send_alert :: "alert_system \<Rightarrow> real \<Rightarrow> alert_type \<Rightarrow> alert_system \<times> bool" where
  "can_send_alert s now ty =
     (if is_paused s then
        (if truthy (pause_until s) \<and> now \<ge> the (pause_until s) then
           (let s' = s\<lparr>is_paused := False, pause_until := None\<rparr>
            in (s', cooldown_ok s' now ty))
         else (s, False))
      else (s, cooldown_ok s now ty))"

definition schedule_escalation :: "alert_system \<Rightarrow> real \<Rightarrow> alert_type \<Rightarrow> alert_system" where
  "schedule_escalation s now ty =
     (let current_count = dict_get (escalation_counts s) ty 0
      in if current_count < MAX_ESCALATION
         then s\<lparr>pending_escalations := (pending_escalations s)(ty \<mapsto> now + ESCALATION_INTERVAL)\<rparr>
         else s)"

definition create_alert ::
  "alert_system \<Rightarrow> real \<Rightarrow> nat \<Rightarrow> alert_type \<Rightarrow> alert_severity \<Rightarrow> string \<Rightarrow> string \<Rightarrow> string
     \<Rightarrow> alert_system \<times> alert_ref option" where
  "create_alert s now today ty sev ttl msg recm =
     (case can_send_alert s now ty of
        (s1, False) \<Rightarrow> (s1, None)
      | (s1, True) \<Rightarrow>
         (let s2 = (if today \<noteq> last_reset_date s1
                    then s1\<lparr>alerts_today := 0, last_reset_date := today\<rparr> else s1);
              a = \<lparr> alert_type = ty, severity = sev, title = ttl, message = msg,
                    recommendation = recm, timestamp = now, acknowledged = False,
                    escalation_level = dict_get (escalation_counts s2) ty 0 \<rparr>;
              r = length (objects s2);
              s3 = s2\<lparr> objects := objects s2 @ [a],
                       active_alerts := active_alerts s2 @ [r],
                       alert_history := deque_append 100 (alert_history s2) r,
                       last_alert_times := (last_alert_times s2)(ty \<mapsto> now),
                       alerts_today := alerts_today s2 + 1 \<rparr>;
              s4 = (if sev \<in> {WARNING, CRITICAL} then schedule_escalation s3 now ty else s3)
          in (s4, Some r)))"

text \<open>
  \<^verbatim>\<open>check_escalations\<close> walks a snapshot of the armed timers. The keys of a dictionary
  are distinct, so the walk visits every armed type once; it is taken in the order of
  the enumeration, which gives the same result as Python's insertion order.
\<close>

definition dict_items :: "(alert_type \<rightharpoonup> 'v) \<Rightarrow> (alert_type \<times> 'v) list" where
  "dict_items m = concat (map (\<lambda>t. case m t of None \<Rightarrow> [] | Some v \<Rightarrow> [(t, v)]) all_alert_types)"

definition unacknowledged_of :: "alert_system \<Rightarrow> alert_type \<Rightarrow> alert_ref list" where
  "unacknowledged_of s ty =
     filter (\<lambda>r. alert_type (objects s ! r) = ty \<and> \<not> acknowledged (objects s ! r)) (active_alerts s)"

fun escalation_scan ::
  "alert_system \<Rightarrow> real \<Rightarrow> (alert_type \<times> real) list \<Rightarrow> (alert_type \<rightharpoonup> real) \<Rightarrow> alert_type list
     \<Rightarrow> (alert_type \<rightharpoonup> real) \<times> alert_type list" where
  "escalation_scan s now [] pend todo = (pend, todo)"
| "escalation_scan s now ((ty, escalation_time) # rest) pend todo =
     (if now \<ge> escalation_time
      then escalation_scan s now rest (pend(ty := None))
             (if unacknowledged_of s ty \<noteq> [] then todo @ [ty] else todo)
      else escalation_scan s now rest pend todo)"

fun escalation_bump :: "alert_type list \<Rightarrow> (alert_type \<rightharpoonup> int) \<Rightarrow> (alert_type \<rightharpoonup> int)" where
  "escalation_bump [] counts = counts"
| "escalation_bump (ty # rest) counts =
     escalation_bump rest (counts(ty \<mapsto> dict_get counts ty 0 + 1))"

definition check_escalations :: "alert_system \<Rightarrow> real \<Rightarrow> alert_system" where
  "check_escalations s now =
     (case escalation_scan s now (dict_items (pending_escalations s)) (pending_escalations s) [] of
        (pend, escalations_to_process) \<Rightarrow>
          s\<lparr> pending_escalations := pend,
             escalation_counts := escalation_bump escalations_to_process (escalation_counts s) \<rparr>)"

text \<open>
  \<^verbatim>\<open>acknowledge_alert\<close> sets the flag on the object itself, then rebuilds the active
  list with \<^verbatim>\<open>a != alert\<close>, which for a dataclass compares the field values.
\<close>

definition acknowledge_alert :: "alert_system \<Rightarrow> alert_ref \<Rightarrow> alert_system" where
  "acknowledge_alert s r =
     (let objs = (objects s)[r := (objects s ! r)\<lparr>acknowledged := True\<rparr>];
          ty = alert_type (objs ! r)
      in s\<lparr> objects := objs,
            pending_escalations := (pending_escalations s)(ty := None),
            escalation_counts := (escalation_counts s)(ty \<mapsto> 0),
            active_alerts := filter (\<lambda>a. objs ! a \<noteq> objs ! r) (active_alerts s) \<rparr>)"

definition acknowledge_all :: "alert_system \<Rightarrow> alert_system" where
  "acknowledge_all s =
     s\<lparr> objects := foldl (\<lambda>objs r. objs[r := (objs ! r)\<lparr>acknowledged := True\<rparr>])
                      (objects s) (active_alerts s),
        active_alerts := [],
        pending_escalations := Map.empty,
        escalation_counts := (\<lambda>t. map_option (\<lambda>_. 0) (escalation_counts s t)) \<rparr>"

definition pause_alerts :: "alert_system \<Rightarrow> real \<Rightarrow> real \<Rightarrow> alert_system" where
  "pause_alerts s now duration_seconds =
     s\<lparr>is_paused := True, pause_until := Some (now + duration_seconds)\<rparr>"

definition resume_alerts :: "alert_system \<Rightarrow> alert_system" where
  "resume_alerts s = s\<lparr>is_paused := False, pause_until := None\<rparr>"

definition get_active_alerts :: "alert_system \<Rightarrow> alert_ref list" where
  "get_active_alerts s = filter (\<lambda>r. \<not> acknowledged (objects s ! r)) (active_alerts s)"

section \<open>Formatting of numbers in messages\<close>

text \<open>
  The messages are built with f-strings: \<^verbatim>\<open>{x:.0f}\<close> and \<^verbatim>\<open>{x:.1f}\<close> print a float
  rounded half-to-even to zero or one decimal place.
\<close>

definition digit :: "nat \<Rightarrow> char" where
  "digit n = ''0123456789'' ! n"

fun show_nat :: "nat \<Rightarrow> string" where
  "show_nat n = (if n < 10 then [digit n] else show_nat (n div 10) @ [digit (n mod 10)])"

definition round_half_even :: "real \<Rightarrow> int" where
  "round_half_even x =
     (let f = \<lfloor>x\<rfloor>; r = x - of_int f
      in if r < 1 / 2 then f else if r > 1 / 2 then f + 1 else if even f then f else f + 1)"

definition sign_prefix :: "real \<Rightarrow> string" where
  "sign_prefix x = (if x < 0 then [CHR ''-''] else [])"

definition fmt0 :: "real \<Rightarrow> string" where
  "fmt0 x = sign_prefix x @ show_nat (nat (round_half_even \<bar>x\<bar>))"

definition fmt1 :: "real \<Rightarrow> string" where
  "fmt1 x =
     (let n = nat (round_half_even (\<bar>x\<bar> * 10))
      in sign_prefix x @ show_nat (n div 10) @ [CHR ''.'', digit (n mod 10)])"

section \<open>screen\_time\_tracker.py\<close>

datatype break_type = MICRO | SHORT | LONG

record work_session =
  start_time :: real
  end_time :: "real option"
  breaks_taken :: int

definition duration :: "work_session \<Rightarrow> real \<Rightarrow> real" where
  "duration ws now = (if truthy (end_time ws) then the (end_time ws) else now) - start_time ws"

definition duration_minutes :: "work_session \<Rightarrow> real \<Rightarrow> real" where
  "duration_minutes ws now = duration ws now / 60"

record break_recommendation =
  break_type :: break_type
  duration_seconds :: int
  reason :: string
  exercises :: "string list"

record idle_period =
  idle_start :: real
  idle_duration :: real

record break_record =
  taken_type :: break_type
  taken_timestamp :: real
  work_duration :: real

text \<open>
  Fields whose names are shared by several classes carry the class as a prefix
  (\<open>stt_\<close> here).
\<close>

record screen_time_tracker =
  current_session :: "work_session option"
  sessions_today :: "work_session list"
  last_activity_time :: real
  is_user_present :: bool
  continuous_work_time :: real
  last_micro_break :: real
  last_short_break :: real
  last_long_break :: real
  total_screen_time_today :: real
  stt_last_reset_date :: nat
  idle_periods :: "idle_period list"
  break_compliance_history :: "break_record list"

definition MICRO_BREAK_INTERVAL :: real where
  "MICRO_BREAK_INTERVAL = 20 * 60"

definition SHORT_BREAK_INTERVAL :: real where
  "SHORT_BREAK_INTERVAL = 45 * 60"

definition LONG_BREAK_INTERVAL :: real where
  "LONG_BREAK_INTERVAL = 90 * 60"

definition MICRO_BREAK_DURATION :: int where
  "MICRO_BREAK_DURATION = 20"

definition SHORT_BREAK_DURATION :: int where
  "SHORT_BREAK_DURATION = 5 * 60"

definition LONG_BREAK_DURATION :: int where
  "LONG_BREAK_DURATION = 15 * 60"

definition IDLE_THRESHOLD :: real where
  "IDLE_THRESHOLD = 30"

definition screen_time_tracker_init :: "real \<Rightarrow> nat \<Rightarrow> screen_time_tracker" where
  "screen_time_tracker_init now today =
     \<lparr> current_session = None, sessions_today = [], last_activity_time = now,
       is_user_present = False, continuous_work_time = 0,
       last_micro_break = now, last_short_break = now, last_long_break = now,
       total_screen_time_today = 0, stt_last_reset_date = today,
       idle_periods = [], break_compliance_history = [] \<rparr>"

definition check_daily_reset :: "screen_time_tracker \<Rightarrow> nat \<Rightarrow> screen_time_tracker" where
  "check_daily_reset s today =
     (if today \<noteq> stt_last_reset_date s
      then s\<lparr>sessions_today := [], total_screen_time_today := 0, stt_last_reset_date := today\<rparr>
      else s)"

definition end_session :: "screen_time_tracker \<Rightarrow> real \<Rightarrow> screen_time_tracker" where
  "end_session s now =
     (case current_session s of
        None \<Rightarrow> s
      | Some cs \<Rightarrow>
          (let cs' = cs\<lparr>end_time := Some now\<rparr>
           in s\<lparr> sessions_today := sessions_today s @ [cs'],
                 total_screen_time_today := total_screen_time_today s + duration cs' now,
                 current_session := None \<rparr>))"

definition start_session :: "screen_time_tracker \<Rightarrow> real \<Rightarrow> screen_time_tracker" where
  "start_session s now =
     (let s1 = (if current_session s \<noteq> None then end_session s now else s)
      in s1\<lparr> current_session := Some \<lparr>start_time = now, end_time = None, breaks_taken = 0\<rparr>,
             continuous_work_time := 0 \<rparr>)"

definition ScreenTimeTracker_update ::
  "screen_time_tracker \<Rightarrow> real \<Rightarrow> nat \<Rightarrow> bool \<Rightarrow> screen_time_tracker" where
  "ScreenTimeTracker_update s now today face_detected =
     (let s1 = check_daily_reset s today
      in if face_detected then
           (let s2 = (if \<not> is_user_present s1 then start_session s1 now else s1);
                s3 = s2\<lparr>is_user_present := True, last_activity_time := now\<rparr>
            in case current_session s3 of
                 None \<Rightarrow> s3
               | Some cs \<Rightarrow> s3\<lparr>continuous_work_time := now - start_time cs\<rparr>)
         else
           (let idle_time = now - last_activity_time s1
            in if idle_time \<ge> IDLE_THRESHOLD then
                 (let s2 = (if is_user_present s1
                            then (end_session s1 now)
                                   \<lparr>idle_periods := deque_append 50 (idle_periods s1)
                                      \<lparr>idle_start = last_activity_time s1,
                                       idle_duration = idle_time\<rparr>\<rparr>
                            else s1)
                  in s2\<lparr>is_user_present := False\<rparr>)
               else s1))"

definition record_break_taken ::
  "screen_time_tracker \<Rightarrow> real \<Rightarrow> break_type \<Rightarrow> screen_time_tracker" where
  "record_break_taken s now bt =
     (let s1 = (if bt = MICRO then s\<lparr>last_micro_break := now\<rparr>
                else if bt = SHORT then s\<lparr>last_short_break := now, last_micro_break := now\<rparr>
                else s\<lparr>last_long_break := now, last_short_break := now,
                       last_micro_break := now\<rparr>);
          s2 = (case current_session s1 of
                  None \<Rightarrow> s1
                | Some cs \<Rightarrow> s1\<lparr>current_session := Some (cs\<lparr>breaks_taken := breaks_taken cs + 1\<rparr>)\<rparr>)
      in s2\<lparr> break_compliance_history :=
                deque_append 20 (break_compliance_history s2)
                  \<lparr>taken_type = bt, taken_timestamp = now,
                   work_duration = continuous_work_time s2\<rparr>,
             continuous_work_time := 0 \<rparr>)"

definition get_break_recommendation ::
  "screen_time_tracker \<Rightarrow> real \<Rightarrow> break_recommendation option" where
  "get_break_recommendation s now =
     (let time_since_long = now - last_long_break s in
      if time_since_long \<ge> LONG_BREAK_INTERVAL then
        Some \<lparr> break_type = LONG, duration_seconds = LONG_BREAK_DURATION,
               reason = ''You've been working for '' @ fmt0 (time_since_long / 60)
                        @ '' minutes. Time for a longer break.'',
               exercises =
                 [''Stand up and stretch your whole body'',
                  ''Take a short walk'',
                  ''Do some light exercises or yoga'',
                  ''Get a healthy snack and water'',
                  ''Look out a window at distant objects''] \<rparr>
      else
        (let time_since_short = now - last_short_break s in
         if time_since_short \<ge> SHORT_BREAK_INTERVAL then
           Some \<lparr> break_type = SHORT, duration_seconds = SHORT_BREAK_DURATION,
                  reason = ''You've been working for '' @ fmt0 (time_since_short / 60)
                           @ '' minutes. Take a short break.'',
                  exercises =
                    [''Stand up and stretch your arms overhead'',
                     ''Roll your shoulders backwards 10 times'',
                     ''Tilt your head side to side gently'',
                     ''Take 5 deep breaths'',
                     ''Walk around for a minute''] \<rparr>
         else
           (let time_since_micro = now - last_micro_break s in
            if time_since_micro \<ge> MICRO_BREAK_INTERVAL then
              Some \<lparr> break_type = MICRO, duration_seconds = MICRO_BREAK_DURATION,
                     reason = ''Time for the 20-20-20 rule: Look at something 20 feet away for 20 seconds.'',
                     exercises =
                       [''Look at a distant object for 20 seconds'',
                        ''Blink 20 times slowly'',
                        ''Close your eyes and take 3 deep breaths''] \<rparr>
            else None)))"

record screen_time_stats =
  total_screen_time_today_minutes :: real
  current_session_minutes :: real
  continuous_work_minutes :: real
  sessions_count :: nat
  average_session_minutes :: real
  breaks_taken_today :: int
  stats_is_user_present :: bool
  time_until_micro_break :: real
  time_until_short_break :: real
  time_until_long_break :: real

definition get_statistics :: "screen_time_tracker \<Rightarrow> real \<Rightarrow> screen_time_stats" where
  "get_statistics s now =
     (let current_session_time =
            (case current_session s of None \<Rightarrow> 0 | Some cs \<Rightarrow> duration cs now);
          total_today = total_screen_time_today s + current_session_time;
          session_durations =
            map (\<lambda>ws. duration_minutes ws now) (sessions_today s)
            @ (case current_session s of None \<Rightarrow> [] | Some cs \<Rightarrow> [duration_minutes cs now]);
          avg_session = (if session_durations \<noteq> []
                         then sum_list session_durations / real (length session_durations)
                         else 0);
          total_breaks =
            sum_list (map breaks_taken (sessions_today s))
            + (case current_session s of None \<Rightarrow> 0 | Some cs \<Rightarrow> breaks_taken cs)
      in \<lparr> total_screen_time_today_minutes = total_today / 60,
           current_session_minutes = current_session_time / 60,
           continuous_work_minutes = continuous_work_time s / 60,
           sessions_count = length (sessions_today s)
                            + (if current_session s \<noteq> None then 1 else 0),
           average_session_minutes = avg_session,
           breaks_taken_today = total_breaks,
           stats_is_user_present = is_user_present s,
           time_until_micro_break = max 0 (MICRO_BREAK_INTERVAL - (now - last_micro_break s)),
           time_until_short_break = max 0 (SHORT_BREAK_INTERVAL - (now - last_short_break s)),
           time_until_long_break = max 0 (LONG_BREAK_INTERVAL - (now - last_long_break s)) \<rparr>)"

section \<open>eye\_tracker.py\<close>

datatype eye_health_status = HEALTHY | EYE_WARNING | EYE_CRITICAL

record blink_event =
  blink_timestamp :: real
  blink_duration :: real

record eye_health_metrics =
  blink_rate :: real
  avg_blink_duration :: real
  eye_strain_score :: real
  eye_status :: eye_health_status
  time_since_last_blink :: real
  current_ear :: real

text \<open>
  \<^verbatim>\<open>calibration_duration\<close> is assigned once in the constructor (120 for the eye tracker,
  30 for the posture analyzer) and never again; it is a constant here.
\<close>

record eye_tracker =
  blink_history :: "blink_event list"
  ear_history :: "real list"
  is_eye_closed :: bool
  eye_close_start_time :: "real option"
  last_blink_time :: real
  baseline_blink_rate :: "real option"
  calibration_blinks :: "real list"
  eye_is_calibrating :: bool
  eye_calibration_start_time :: real

definition HEALTHY_BLINK_RATE_MIN :: real where
  "HEALTHY_BLINK_RATE_MIN = 12"

definition WARNING_BLINK_RATE :: real where
  "WARNING_BLINK_RATE = 8"

definition CRITICAL_BLINK_RATE :: real where
  "CRITICAL_BLINK_RATE = 5"

definition EAR_BLINK_THRESHOLD :: real where
  "EAR_BLINK_THRESHOLD = 0.21"

definition MIN_BLINK_DURATION :: real where
  "MIN_BLINK_DURATION = 0.05"

definition MAX_BLINK_DURATION :: real where
  "MAX_BLINK_DURATION = 0.5"

definition BLINK_HISTORY_WINDOW :: real where
  "BLINK_HISTORY_WINDOW = 60"

definition eye_calibration_duration :: real where
  "eye_calibration_duration = 120"

definition eye_tracker_init :: "real \<Rightarrow> eye_tracker" where
  "eye_tracker_init now =
     \<lparr> blink_history = [], ear_history = [], is_eye_closed = False,
       eye_close_start_time = None, last_blink_time = now, baseline_blink_rate = None,
       calibration_blinks = [], eye_is_calibrating = True,
       eye_calibration_start_time = now \<rparr>"

definition EyeTracker_complete_calibration :: "eye_tracker \<Rightarrow> eye_tracker" where
  "EyeTracker_complete_calibration s =
     (let s1 = (if length (calibration_blinks s) \<ge> 5
                then (let duration_minutes = eye_calibration_duration / 60
                      in s\<lparr>baseline_blink_rate :=
                             Some (real (length (calibration_blinks s)) / duration_minutes)\<rparr>)
                else s)
      in s1\<lparr>eye_is_calibrating := False, calibration_blinks := []\<rparr>)"

definition EyeTracker_update ::
  "eye_tracker \<Rightarrow> real \<Rightarrow> real \<Rightarrow> real \<Rightarrow> eye_tracker \<times> blink_event option" where
  "EyeTracker_update s now left_ear right_ear =
     (let avg_ear = (left_ear + right_ear) / 2;
          s1 = s\<lparr>ear_history := deque_append 30 (ear_history s) avg_ear\<rparr>;
          (s2, blink) =
            (if avg_ear < EAR_BLINK_THRESHOLD then
               (if \<not> is_eye_closed s1
                then (s1\<lparr>is_eye_closed := True, eye_close_start_time := Some now\<rparr>, None)
                else (s1, None))
             else if is_eye_closed s1 \<and> truthy (eye_close_start_time s1) then
               (let blink_duration = now - the (eye_close_start_time s1);
                    (s1', ev) =
                      (if MIN_BLINK_DURATION \<le> blink_duration \<and> blink_duration \<le> MAX_BLINK_DURATION
                       then
                         (let e = \<lparr>blink_timestamp = now, blink_duration = blink_duration\<rparr>
                          in (s1\<lparr> blink_history := deque_append 100 (blink_history s1) e,
                                   last_blink_time := now,
                                   calibration_blinks :=
                                     (if eye_is_calibrating s1 then calibration_blinks s1 @ [now]
                                      else calibration_blinks s1) \<rparr>,
                              Some e))
                       else (s1, None))
                in (s1'\<lparr>is_eye_closed := False, eye_close_start_time := None\<rparr>, ev))
             else (s1, None));
          s3 = (if eye_is_calibrating s2
                     \<and> now - eye_calibration_start_time s2 \<ge> eye_calibration_duration
                then EyeTracker_complete_calibration s2 else s2)
      in (s3, blink))"

definition get_current_blink_rate :: "eye_tracker \<Rightarrow> real \<Rightarrow> real" where
  "get_current_blink_rate s now =
     (let window_start = now - BLINK_HISTORY_WINDOW;
          recent_blinks = filter (\<lambda>b. blink_timestamp b \<ge> window_start) (blink_history s)
      in if length recent_blinks < 2 then 0
         else (let duration_minutes = BLINK_HISTORY_WINDOW / 60
               in real (length recent_blinks) / duration_minutes))"

definition mean_ear :: "eye_tracker \<Rightarrow> real" where
  "mean_ear s = (if ear_history s \<noteq> []
                 then sum_list (ear_history s) / real (length (ear_history s)) else 0.25)"

text \<open>
  The body of \<^verbatim>\<open>calculate_eye_strain_score\<close> after its three input lines: the additive
  tiers on the blink rate, the time since the last blink, the mean ratio and the
  deviation from the baseline, capped at 100.
\<close>

definition strain_score_of :: "real \<Rightarrow> real \<Rightarrow> real \<Rightarrow> real option \<Rightarrow> real" where
  "strain_score_of rate time_since_blink avg_ear baseline =
     (let score = 0;
          score = (if rate < CRITICAL_BLINK_RATE then score + 40
                   else if rate < WARNING_BLINK_RATE then score + 25
                   else if rate < HEALTHY_BLINK_RATE_MIN then score + 10
                   else score);
          score = (if time_since_blink > 30 then score + 30
                   else if time_since_blink > 15 then score + 15
                   else if time_since_blink > 10 then score + 5
                   else score);
          score = (if avg_ear < 0.22 then score + 20
                   else if avg_ear < 0.24 then score + 10
                   else score);
          score = (if truthy baseline then
                     (let rate_deviation = (the baseline - rate) / the baseline
                      in if rate_deviation > 0.5 then score + 15
                         else if rate_deviation > 0.3 then score + 8
                         else score)
                   else score)
      in min 100 score)"

definition calculate_eye_strain_score :: "eye_tracker \<Rightarrow> real \<Rightarrow> real" where
  "calculate_eye_strain_score s now =
     (let rate = get_current_blink_rate s now;
          time_since_blink = now - last_blink_time s;
          avg_ear = mean_ear s
      in strain_score_of rate time_since_blink avg_ear (baseline_blink_rate s))"

definition get_health_status :: "eye_tracker \<Rightarrow> real \<Rightarrow> eye_health_status" where
  "get_health_status s now =
     (let score = calculate_eye_strain_score s now
      in if score \<ge> 60 then EYE_CRITICAL
         else if score \<ge> 30 then EYE_WARNING
         else HEALTHY)"

definition EyeTracker_get_metrics :: "eye_tracker \<Rightarrow> real \<Rightarrow> eye_health_metrics" where
  "EyeTracker_get_metrics s now =
     (let rate = get_current_blink_rate s now;
          recent_blinks = drop (length (blink_history s) - 20) (blink_history s);
          avg_duration = (if recent_blinks \<noteq> []
                          then sum_list (map blink_duration recent_blinks)
                               / real (length recent_blinks)
                          else 0)
      in \<lparr> blink_rate = rate,
           avg_blink_duration = avg_duration,
           eye_strain_score = calculate_eye_strain_score s now,
           eye_status = get_health_status s now,
           time_since_last_blink = now - last_blink_time s,
           current_ear = mean_ear s \<rparr>)"

definition EyeTracker_get_recommendation :: "eye_tracker \<Rightarrow> real \<Rightarrow> string option" where
  "EyeTracker_get_recommendation s now =
     (let metrics = EyeTracker_get_metrics s now
      in if eye_status metrics = EYE_CRITICAL then
           (if time_since_last_blink metrics > 20
            then Some ''You haven't blinked in a while. Please blink now and consider the 20-20-20 rule: look at something 20 feet away for 20 seconds.''
            else Some ''Your eyes are showing signs of strain. Take a short break and look away from the screen.'')
         else if eye_status metrics = EYE_WARNING then
           (if blink_rate metrics < WARNING_BLINK_RATE
            then Some ''Your blink rate is lower than normal. Try to blink more consciously.''
            else Some ''Your eyes may be getting tired. Consider resting them soon.'')
         else None)"

section \<open>posture\_analyzer.py\<close>

datatype posture_status = POSTURE_GOOD | POSTURE_WARNING | POOR

record posture_metrics =
  head_pitch :: real
  head_yaw :: real
  head_roll :: real
  distance_from_screen :: real
  posture_score :: real
  posture_status :: posture_status
  issues :: "string list"
  bad_posture_duration :: real

record posture_analyzer =
  pitch_history :: "real list"
  yaw_history :: "real list"
  roll_history :: "real list"
  distance_history :: "real list"
  baseline_pitch :: "real option"
  baseline_yaw :: "real option"
  baseline_distance :: "real option"
  calibration_data :: "(real \<times> real \<times> real \<times> real) list"
  posture_is_calibrating :: bool
  posture_calibration_start_time :: real
  bad_posture_start_time :: "real option"
  current_bad_posture_duration :: real
  total_bad_posture_time :: real

definition IDEAL_DISTANCE_MIN :: real where
  "IDEAL_DISTANCE_MIN = 30"

definition IDEAL_DISTANCE_MAX :: real where
  "IDEAL_DISTANCE_MAX = 50"

definition WARNING_DISTANCE_MIN :: real where
  "WARNING_DISTANCE_MIN = 20"

definition CRITICAL_DISTANCE_MIN :: real where
  "CRITICAL_DISTANCE_MIN = 10"

definition HEAD_TILT_WARNING :: real where
  "HEAD_TILT_WARNING = 20"

definition HEAD_TILT_CRITICAL :: real where
  "HEAD_TILT_CRITICAL = 25"

definition FORWARD_HEAD_WARNING :: real where
  "FORWARD_HEAD_WARNING = 20"

definition FORWARD_HEAD_CRITICAL :: real where
  "FORWARD_HEAD_CRITICAL = 35"

definition HEAD_ROLL_WARNING :: real where
  "HEAD_ROLL_WARNING = 15"

definition HEAD_ROLL_CRITICAL :: real where
  "HEAD_ROLL_CRITICAL = 25"

definition BAD_POSTURE_ALERT_THRESHOLD :: real where
  "BAD_POSTURE_ALERT_THRESHOLD = 30"

definition posture_calibration_duration :: real where
  "posture_calibration_duration = 30"

definition posture_analyzer_init :: "real \<Rightarrow> posture_analyzer" where
  "posture_analyzer_init now =
     \<lparr> pitch_history = [], yaw_history = [], roll_history = [], distance_history = [],
       baseline_pitch = None, baseline_yaw = None, baseline_distance = None,
       calibration_data = [], posture_is_calibrating = True,
       posture_calibration_start_time = now, bad_posture_start_time = None,
       current_bad_posture_duration = 0, total_bad_posture_time = 0 \<rparr>"

text \<open>\<^verbatim>\<open>np.mean\<close> and \<^verbatim>\<open>np.median\<close> of a non-empty list.\<close>

definition mean :: "real list \<Rightarrow> real" where
  "mean xs = sum_list xs / real (length xs)"

definition median :: "real list \<Rightarrow> real" where
  "median xs =
     (let ys = sort xs; n = length ys
      in if odd n then ys ! (n div 2) else (ys ! (n div 2 - 1) + ys ! (n div 2)) / 2)"

definition PostureAnalyzer_complete_calibration :: "posture_analyzer \<Rightarrow> posture_analyzer" where
  "PostureAnalyzer_complete_calibration s =
     (let s1 = (if length (calibration_data s) \<ge> 10 then
                  (let pitches = map (\<lambda>(p, y, r, d). p) (calibration_data s);
                       yaws = map (\<lambda>(p, y, r, d). y) (calibration_data s);
                       distances = map (\<lambda>(p, y, r, d). d) (calibration_data s)
                   in s\<lparr> baseline_pitch := Some (median pitches),
                         baseline_yaw := Some (median yaws),
                         baseline_distance := Some (median distances) \<rparr>)
                else s)
      in s1\<lparr>posture_is_calibrating := False, calibration_data := []\<rparr>)"

definition get_smoothed_values :: "posture_analyzer \<Rightarrow> real \<times> real \<times> real \<times> real" where
  "get_smoothed_values s =
     (let pitch = (if pitch_history s \<noteq> [] then mean (pitch_history s) else 0);
          yaw = (if yaw_history s \<noteq> [] then mean (yaw_history s) else 0);
          roll = (if roll_history s \<noteq> [] then mean (roll_history s) else 0);
          distance = (if distance_history s \<noteq> [] then mean (distance_history s) else 50)
      in (pitch, yaw, roll, distance))"

definition calculate_posture_score :: "posture_analyzer \<Rightarrow> real" where
  "calculate_posture_score s =
     (case get_smoothed_values s of (pitch, yaw, roll, distance) \<Rightarrow>
        (let score = 100;
             pitch_deviation = \<bar>pitch - or_zero (baseline_pitch s)\<bar>;
             score = (if pitch_deviation > FORWARD_HEAD_CRITICAL then score - 30
                      else if pitch_deviation > FORWARD_HEAD_WARNING then score - 15
                      else score);
             roll_deviation = \<bar>roll\<bar>;
             score = (if roll_deviation > HEAD_ROLL_CRITICAL then score - 25
                      else if roll_deviation > HEAD_ROLL_WARNING then score - 12
                      else score);
             yaw_deviation = \<bar>yaw - or_zero (baseline_yaw s)\<bar>;
             score = (if yaw_deviation > HEAD_TILT_CRITICAL then score - 20
                      else if yaw_deviation > HEAD_TILT_WARNING then score - 10
                      else score);
             score = (if distance < CRITICAL_DISTANCE_MIN then score - 30
                      else if distance < WARNING_DISTANCE_MIN then score - 15
                      else if distance < IDEAL_DISTANCE_MIN then score - 5
                      else if distance > IDEAL_DISTANCE_MAX + 30 then score - 10
                      else score);
             score = (if current_bad_posture_duration s > 120 then score - 15
                      else if current_bad_posture_duration s > 60 then score - 8
                      else score)
         in max 0 score))"

definition get_status :: "posture_analyzer \<Rightarrow> posture_status" where
  "get_status s =
     (let score = calculate_posture_score s
      in if score \<ge> 70 then POSTURE_GOOD
         else if score \<ge> 40 then POSTURE_WARNING
         else POOR)"

definition get_issues :: "posture_analyzer \<Rightarrow> string list" where
  "get_issues s =
     (case get_smoothed_values s of (pitch, yaw, roll, distance) \<Rightarrow>
        (let pitch_deviation = pitch - or_zero (baseline_pitch s);
             i1 = (if pitch_deviation > FORWARD_HEAD_WARNING
                   then [''Forward head posture detected'']
                   else if pitch_deviation < - FORWARD_HEAD_WARNING
                   then [''Head tilted back too far'']
                   else []);
             i2 = (if \<bar>roll\<bar> > HEAD_ROLL_WARNING
                   then [''Head tilted to the '' @ (if roll > 0 then ''right'' else ''left'')]
                   else []);
             yaw_deviation = \<bar>yaw - or_zero (baseline_yaw s)\<bar>;
             i3 = (if yaw_deviation > HEAD_TILT_WARNING
                   then [''Head turned to the '' @ (if yaw > 0 then ''right'' else ''left'')]
                   else []);
             i4 = (if distance < WARNING_DISTANCE_MIN
                   then [''Too close to screen ('' @ fmt0 distance @ ''cm)'']
                   else if distance < IDEAL_DISTANCE_MIN
                   then [''Consider moving back slightly ('' @ fmt0 distance @ ''cm)'']
                   else []);
             i5 = (if current_bad_posture_duration s > 60
                   then [''Poor posture for '' @ fmt0 (current_bad_posture_duration s)
                         @ '' seconds'']
                   else [])
         in i1 @ i2 @ i3 @ i4 @ i5))"

definition PostureAnalyzer_get_metrics :: "posture_analyzer \<Rightarrow> posture_metrics" where
  "PostureAnalyzer_get_metrics s =
     (case get_smoothed_values s of (pitch, yaw, roll, distance) \<Rightarrow>
        \<lparr> head_pitch = pitch, head_yaw = yaw, head_roll = roll,
          distance_from_screen = distance,
          posture_score = calculate_posture_score s,
          posture_status = get_status s,
          issues = get_issues s,
          bad_posture_duration = current_bad_posture_duration s \<rparr>)"

text \<open>
  \<^verbatim>\<open>"Forward head posture" in str(metrics.issues)\<close> searches the printed list; the
  needle has no quote or comma, so it is found exactly when one of the issues contains it.
\<close>

fun starts_with :: "string \<Rightarrow> string \<Rightarrow> bool" where
  "starts_with [] s = True"
| "starts_with (c # cs) [] = False"
| "starts_with (c # cs) (d # ds) = (c = d \<and> starts_with cs ds)"

fun contains :: "string \<Rightarrow> string \<Rightarrow> bool" where
  "contains needle [] = (needle = [])"
| "contains needle (d # ds) = (starts_with needle (d # ds) \<or> contains needle ds)"

definition PostureAnalyzer_get_recommendation :: "posture_analyzer \<Rightarrow> string option" where
  "PostureAnalyzer_get_recommendation s =
     (let metrics = PostureAnalyzer_get_metrics s
      in if posture_status metrics = POOR then
           (if distance_from_screen metrics < WARNING_DISTANCE_MIN
            then Some ''You're too close to the screen. Move back to at least 50cm for better eye and posture health.''
            else if list_ex (contains ''Forward head posture'') (issues metrics)
            then Some ''Your head is leaning forward. Sit back and align your ears with your shoulders.''
            else if bad_posture_duration metrics > 60
            then Some ''You've had poor posture for over a minute. Take a moment to sit up straight and reset your position.''
            else Some ''Your posture needs attention. Sit up straight with your back against the chair.'')
         else if posture_status metrics = POSTURE_WARNING then
           (case issues metrics of
              [] \<Rightarrow> None
            | i # _ \<Rightarrow> Some (''Minor posture issue: '' @ i @ ''. Make a small adjustment.''))
         else None)"

definition should_alert :: "posture_analyzer \<Rightarrow> bool" where
  "should_alert s =
     (current_bad_posture_duration s \<ge> BAD_POSTURE_ALERT_THRESHOLD
      \<and> get_status s \<noteq> POSTURE_GOOD)"

definition PostureAnalyzer_update ::
  "posture_analyzer \<Rightarrow> real \<Rightarrow> real \<times> real \<times> real \<Rightarrow> real \<Rightarrow> posture_analyzer" where
  "PostureAnalyzer_update s now head_pose distance =
     (case head_pose of (pitch, yaw, roll) \<Rightarrow>
        (let s1 = s\<lparr> pitch_history := deque_append 30 (pitch_history s) pitch,
                     yaw_history := deque_append 30 (yaw_history s) yaw,
                     roll_history := deque_append 30 (roll_history s) roll,
                     distance_history := deque_append 30 (distance_history s) distance \<rparr>;
             s2 = (if posture_is_calibrating s1 then
                     (let c = s1\<lparr>calibration_data :=
                                  calibration_data s1 @ [(pitch, yaw, roll, distance)]\<rparr>
                      in if now - posture_calibration_start_time c \<ge> posture_calibration_duration
                         then PostureAnalyzer_complete_calibration c else c)
                   else s1);
             status = get_status s2
         in if status \<noteq> POSTURE_GOOD then
              (let s3 = (if bad_posture_start_time s2 = None
                         then s2\<lparr>bad_posture_start_time := Some now\<rparr> else s2)
               in s3\<lparr>current_bad_posture_duration := now - the (bad_posture_start_time s3)\<rparr>)
            else
              (let s3 = (if truthy (bad_posture_start_time s2)
                         then s2\<lparr>total_bad_posture_time :=
                                   total_bad_posture_time s2 + current_bad_posture_duration s2\<rparr>
                         else s2)
               in s3\<lparr>bad_posture_start_time := None, current_bad_posture_duration := 0\<rparr>)))"

section \<open>health\_monitor.py\<close>

datatype overall_health_status = EXCELLENT | GOOD | FAIR | NEEDS_ATTENTION

text \<open>
  The vision engine is the source of the per-tick signals. One tick's outcome of
  \<^verbatim>\<open>get_frame\<close>, \<^verbatim>\<open>process_frame\<close> and the three geometry functions is the input of the
  aggregator: no frame, a frame without a face, or a face with its two eye-aspect
  ratios, head pose (pitch, yaw, roll) and distance.
\<close>

datatype camera_frame =
  NoFrame
| NoFace
| Face real real "real \<times> real \<times> real" real

record eye_metrics_dict =
  d_blink_rate :: real
  d_eye_strain_score :: real
  d_eye_status :: eye_health_status
  d_time_since_blink :: real
  d_current_ear :: real

record posture_metrics_dict =
  d_posture_score :: real
  d_posture_status :: posture_status
  d_distance :: real
  d_head_pitch :: real
  d_head_roll :: real
  d_issues :: "string list"
  d_bad_posture_duration :: real

record alert_dict =
  d_type :: alert_type
  d_severity :: alert_severity
  d_title :: string
  d_message :: string
  d_recommendation :: string

text \<open>
  The snapshot of an absent tick lists the alert objects themselves, the snapshot of a
  present tick lists a dictionary per alert. An empty metrics dictionary is \<open>None\<close>.
\<close>

datatype alert_entry = AlertObject alert_ref | AlertDict alert_dict

record health_state =
  overall_status :: overall_health_status
  overall_score :: real
  hs_eye_metrics :: "eye_metrics_dict option"
  hs_posture_metrics :: "posture_metrics_dict option"
  hs_screen_time_stats :: screen_time_stats
  hs_active_alerts :: "alert_entry list"
  hs_is_calibrating :: bool
  hs_is_user_present :: bool

text \<open>
  The monitor owns the three trackers and the alert engine. The data logger (a sink
  that writes snapshots to disk) and the stored frame and landmarks (image data for the
  display) have no influence on the trackers or the engine and are left out.
  \<open>escalation_checks\<close> is not a field of the class: it counts the calls of
  \<^verbatim>\<open>alert_system.check_escalations()\<close> the monitor has made, so that properties about
  the number of calls can be stated.
\<close>

record health_monitor =
  eye_tracker :: eye_tracker
  posture_analyzer :: posture_analyzer
  alert_system :: alert_system
  screen_time_tracker :: screen_time_tracker
  is_running :: bool
  escalation_checks :: nat

definition health_monitor_init :: "real \<Rightarrow> nat \<Rightarrow> health_monitor" where
  "health_monitor_init now today =
     \<lparr> eye_tracker = eye_tracker_init now,
       posture_analyzer = posture_analyzer_init now,
       alert_system = alert_system_init today,
       screen_time_tracker = screen_time_tracker_init now today,
       is_running = False,
       escalation_checks = 0 \<rparr>"

definition start :: "health_monitor \<Rightarrow> bool \<Rightarrow> health_monitor \<times> bool" where
  "start hm camera_ok = (if \<not> camera_ok then (hm, False) else (hm\<lparr>is_running := True\<rparr>, True))"

definition eye_strain_title :: "alert_severity \<Rightarrow> string" where
  "eye_strain_title sev =
     (case sev of INFO \<Rightarrow> ''Eye Care Reminder''
                | WARNING \<Rightarrow> ''Eye Strain Detected''
                | CRITICAL \<Rightarrow> ''High Eye Strain Warning'')"

definition posture_title :: "alert_severity \<Rightarrow> string" where
  "posture_title sev =
     (case sev of INFO \<Rightarrow> ''Posture Tip''
                | WARNING \<Rightarrow> ''Posture Check''
                | CRITICAL \<Rightarrow> ''Posture Alert'')"

definition create_eye_strain_alert ::
  "alert_system \<Rightarrow> real \<Rightarrow> nat \<Rightarrow> alert_severity \<Rightarrow> string \<Rightarrow> string \<Rightarrow> alert_system" where
  "create_eye_strain_alert a now today sev msg recm =
     fst (create_alert a now today EYE_STRAIN sev (eye_strain_title sev) msg recm)"

definition create_posture_alert ::
  "alert_system \<Rightarrow> real \<Rightarrow> nat \<Rightarrow> alert_severity \<Rightarrow> string \<Rightarrow> string \<Rightarrow> alert_system" where
  "create_posture_alert a now today sev msg recm =
     fst (create_alert a now today POSTURE sev (posture_title sev) msg recm)"

definition create_break_alert ::
  "alert_system \<Rightarrow> real \<Rightarrow> nat \<Rightarrow> alert_severity \<Rightarrow> string \<Rightarrow> string \<Rightarrow> alert_system" where
  "create_break_alert a now today sev msg recm =
     fst (create_alert a now today BREAK_NEEDED sev ''Break Reminder'' msg recm)"

text \<open>\<^verbatim>\<open>recommendation or default\<close>, and \<^verbatim>\<open>"\n".join(xs)\<close>.\<close>

definition or_default :: "string option \<Rightarrow> string \<Rightarrow> string" where
  "or_default r d = (case r of None \<Rightarrow> d | Some t \<Rightarrow> if t = [] then d else t)"

fun join_lines :: "string list \<Rightarrow> string" where
  "join_lines [] = []"
| "join_lines [x] = x"
| "join_lines (x # y # ys) = x @ [CHR 0x0A] @ join_lines (y # ys)"

definition check_and_send_alerts ::
  "health_monitor \<Rightarrow> real \<Rightarrow> nat \<Rightarrow> eye_health_metrics \<Rightarrow> posture_metrics \<Rightarrow> screen_time_stats
     \<Rightarrow> health_monitor" where
  "check_and_send_alerts hm now today eye_m posture_m screen_stats =
     (let a0 = alert_system hm;
          a1 = (if eye_status eye_m = EYE_CRITICAL then
                  (let recm = EyeTracker_get_recommendation (eye_tracker hm) now
                   in create_eye_strain_alert a0 now today CRITICAL
                        (''Your eye strain score is '' @ fmt0 (eye_strain_score eye_m) @ ''%'')
                        (or_default recm ''Take a break and rest your eyes''))
                else if eye_status eye_m = EYE_WARNING then
                  (let recm = EyeTracker_get_recommendation (eye_tracker hm) now
                   in create_eye_strain_alert a0 now today WARNING
                        (''Your blink rate is lower than normal ('' @ fmt1 (blink_rate eye_m)
                         @ '' blinks/min)'')
                        (or_default recm ''Try to blink more often''))
                else a0);
          a2 = (if should_alert (posture_analyzer hm) then
                  (let recm = PostureAnalyzer_get_recommendation (posture_analyzer hm);
                       sev = (if posture_status posture_m = POOR then CRITICAL else WARNING)
                   in create_posture_alert a1 now today sev
                        (''Poor posture detected for '' @ fmt0 (bad_posture_duration posture_m)
                         @ '' seconds'')
                        (or_default recm ''Adjust your sitting position''))
                else a1);
          a3 = (case get_break_recommendation (screen_time_tracker hm) now of
                  None \<Rightarrow> a2
                | Some break_rec \<Rightarrow>
                    (let sev = (if break_type break_rec = LONG then WARNING else INFO)
                     in create_break_alert a2 now today sev (reason break_rec)
                          (join_lines (take 3 (exercises break_rec)))))
      in hm\<lparr> alert_system := check_escalations a3 now,
             escalation_checks := escalation_checks hm + 1 \<rparr>)"

definition calculate_overall_score :: "eye_health_metrics \<Rightarrow> posture_metrics \<Rightarrow> real" where
  "calculate_overall_score eye_m posture_m =
     (let eye_score = 100 - eye_strain_score eye_m;
          p_score = posture_score posture_m;
          overall = eye_score * 0.5 + p_score * 0.5
      in max 0 (min 100 overall))"

definition determine_overall_status :: "real \<Rightarrow> overall_health_status" where
  "determine_overall_status score =
     (if score \<ge> 85 then EXCELLENT
      else if score \<ge> 70 then GOOD
      else if score \<ge> 50 then FAIR
      else NEEDS_ATTENTION)"

definition alert_as_dict :: "alert \<Rightarrow> alert_dict" where
  "alert_as_dict a =
     \<lparr> d_type = alert_type a, d_severity = severity a, d_title = title a,
       d_message = message a, d_recommendation = recommendation a \<rparr>"

definition process_frame ::
  "health_monitor \<Rightarrow> real \<Rightarrow> nat \<Rightarrow> camera_frame \<Rightarrow> health_monitor \<times> health_state option" where
  "process_frame hm now today frame =
     (if \<not> is_running hm then (hm, None)
      else case frame of
        NoFrame \<Rightarrow> (hm, None)
      | NoFace \<Rightarrow>
          (let hm1 = hm\<lparr>screen_time_tracker :=
                         ScreenTimeTracker_update (screen_time_tracker hm) now today False\<rparr>
           in (hm1,
               Some \<lparr> overall_status = GOOD,
                      overall_score = 100,
                      hs_eye_metrics = None,
                      hs_posture_metrics = None,
                      hs_screen_time_stats = get_statistics (screen_time_tracker hm1) now,
                      hs_active_alerts = map AlertObject (get_active_alerts (alert_system hm1)),
                      hs_is_calibrating = False,
                      hs_is_user_present = False \<rparr>))
      | Face left_ear right_ear head_pose distance \<Rightarrow>
          (let hm1 = hm\<lparr>screen_time_tracker :=
                         ScreenTimeTracker_update (screen_time_tracker hm) now today True\<rparr>;
               hm2 = hm1\<lparr>eye_tracker :=
                          fst (EyeTracker_update (eye_tracker hm1) now left_ear right_ear)\<rparr>;
               hm3 = hm2\<lparr>posture_analyzer :=
                          PostureAnalyzer_update (posture_analyzer hm2) now head_pose distance\<rparr>;
               eye_m = EyeTracker_get_metrics (eye_tracker hm3) now;
               posture_m = PostureAnalyzer_get_metrics (posture_analyzer hm3);
               screen_stats = get_statistics (screen_time_tracker hm3) now;
               hm4 = check_and_send_alerts hm3 now today eye_m posture_m screen_stats;
               score = calculate_overall_score eye_m posture_m;
               status = determine_overall_status score;
               calibrating = (eye_is_calibrating (eye_tracker hm4)
                              \<or> posture_is_calibrating (posture_analyzer hm4))
           in (hm4,
               Some \<lparr> overall_status = status,
                      overall_score = score,
                      hs_eye_metrics =
                        Some \<lparr> d_blink_rate = blink_rate eye_m,
                               d_eye_strain_score = eye_strain_score eye_m,
                               d_eye_status = eye_status eye_m,
                               d_time_since_blink = time_since_last_blink eye_m,
                               d_current_ear = current_ear eye_m \<rparr>,
                      hs_posture_metrics =
                        Some \<lparr> d_posture_score = posture_score posture_m,
                               d_posture_status = posture_status posture_m,
                               d_distance = distance_from_screen posture_m,
                               d_head_pitch = head_pitch posture_m,
                               d_head_roll = head_roll posture_m,
                               d_issues = issues posture_m,
                               d_bad_posture_duration = bad_posture_duration posture_m \<rparr>,
                      hs_screen_time_stats = screen_stats,
                      hs_active_alerts =
                        map (\<lambda>r. AlertDict (alert_as_dict (objects (alert_system hm4) ! r)))
                            (get_active_alerts (alert_system hm4)),
                      hs_is_calibrating = calibrating,
                      hs_is_user_present = True \<rparr>)))"

section \<open>Concrete scenarios\<close>

text \<open>
  A fresh engine on which one posture warning was raised at second 1000: the alert is
  active and unacknowledged and its escalation timer is armed for second 1060.
\<close>

definition armed_engine :: alert_system where
  "armed_engine =
     fst (create_alert (alert_system_init 0) 1000 0 POSTURE WARNING ''Posture Check'' ''m'' ''r'')"

text \<open>
  A test driver for the screen-time tracker: one tick per second from time \<open>t\<close> on, all
  on the day \<open>today\<close>, with the given presence flags.
\<close>

fun drive :: "screen_time_tracker \<Rightarrow> real \<Rightarrow> nat \<Rightarrow> bool list \<Rightarrow> screen_time_tracker" where
  "drive s t today [] = s"
| "drive s t today (p # ps) = drive (ScreenTimeTracker_update s t today p) (t + 1) today ps"

text \<open>A tracker built at second 0 and ticked from second 1: 100 present ticks, 40 absent ticks.\<close>

definition run_100_40 :: screen_time_tracker where
  "run_100_40 =
     drive (screen_time_tracker_init 0 0) 1 0 (replicate 100 True @ replicate 40 False)"

text \<open>
  The two shapes a tracker built at \<open>t0\<close> takes during such a run: inside its first
  session (opened at \<open>opened\<close>, last present tick at \<open>lastp\<close>), and after that session
  was closed at \<open>ended\<close>.
\<close>

definition in_session :: "real \<Rightarrow> nat \<Rightarrow> real \<Rightarrow> real \<Rightarrow> screen_time_tracker" where
  "in_session t0 today opened lastp =
     (screen_time_tracker_init t0 today)
       \<lparr> current_session := Some \<lparr>start_time = opened, end_time = None, breaks_taken = 0\<rparr>,
         last_activity_time := lastp, is_user_present := True,
         continuous_work_time := lastp - opened \<rparr>"

definition closed_session :: "real \<Rightarrow> nat \<Rightarrow> real \<Rightarrow> real \<Rightarrow> real \<Rightarrow> screen_time_tracker" where
  "closed_session t0 today opened lastp ended =
     (screen_time_tracker_init t0 today)
       \<lparr> sessions_today := [\<lparr>start_time = opened, end_time = Some ended, breaks_taken = 0\<rparr>],
         last_activity_time := lastp,
         continuous_work_time := lastp - opened,
         total_screen_time_today := ended - opened,
         idle_periods := [\<lparr>idle_start = lastp, idle_duration = ended - lastp\<rparr>] \<rparr>"

text \<open>
  An eye tracker built at second 100 whose first tick, at the same second, saw both
  ratios at 0.1: the eyes are closed since second 100.
\<close>

definition eyes_shut :: eye_tracker where
  "eyes_shut = fst (EyeTracker_update (eye_tracker_init 100) 100 0.1 0.1)"

text \<open>A tracker built at second 0 with five blinks recorded at seconds 10 to 50.\<close>

definition five_blinks :: eye_tracker where
  "five_blinks =
     (eye_tracker_init 0)
       \<lparr>blink_history :=
          [\<lparr>blink_timestamp = 10, blink_duration = 0.1\<rparr>,
           \<lparr>blink_timestamp = 20, blink_duration = 0.1\<rparr>,
           \<lparr>blink_timestamp = 30, blink_duration = 0.1\<rparr>,
           \<lparr>blink_timestamp = 40, blink_duration = 0.1\<rparr>,
           \<lparr>blink_timestamp = 50, blink_duration = 0.1\<rparr>]\<rparr>"

text \<open>
  The four additive contributions of the eye-strain score, named so that the score can
  be compared term by term.
\<close>

definition rate_tier :: "real \<Rightarrow> real" where
  "rate_tier rate = (if rate < 5 then 40 else if rate < 8 then 25 else if rate < 12 then 10 else 0)"

definition idle_tier :: "real \<Rightarrow> real" where
  "idle_tier t = (if t > 30 then 30 else if t > 15 then 15 else if t > 10 then 5 else 0)"

definition ear_tier :: "real \<Rightarrow> real" where
  "ear_tier e = (if e < 0.22 then 20 else if e < 0.24 then 10 else 0)"

definition deviation_penalty :: "real \<Rightarrow> real" where
  "deviation_penalty d = (if d > 0.5 then 15 else if d > 0.3 then 8 else 0)"

definition deviation_tier :: "real option \<Rightarrow> real \<Rightarrow> real" where
  "deviation_tier baseline rate =
     (if truthy baseline then deviation_penalty ((the baseline - rate) / the baseline) else 0)"

text \<open>
  The five subtractive contributions of the posture score, and the two phases of
  \<^verbatim>\<open>PostureAnalyzer.update\<close> (recording the sample with its calibration step, then timing
  the bad posture), named so that a tick can be evaluated phase by phase.
\<close>

definition pitch_penalty :: "real \<Rightarrow> real" where
  "pitch_penalty d = (if d > 35 then 30 else if d > 20 then 15 else 0)"

definition roll_penalty :: "real \<Rightarrow> real" where
  "roll_penalty d = (if d > 25 then 25 else if d > 15 then 12 else 0)"

definition yaw_penalty :: "real \<Rightarrow> real" where
  "yaw_penalty d = (if d > 25 then 20 else if d > 20 then 10 else 0)"

definition distance_penalty :: "real \<Rightarrow> real" where
  "distance_penalty d =
     (if d < 10 then 30 else if d < 20 then 15 else if d < 30 then 5
      else if d > 80 then 10 else 0)"

definition duration_penalty :: "real \<Rightarrow> real" where
  "duration_penalty d = (if d > 120 then 15 else if d > 60 then 8 else 0)"

definition record_sample ::
  "posture_analyzer \<Rightarrow> real \<Rightarrow> real \<times> real \<times> real \<Rightarrow> real \<Rightarrow> posture_analyzer" where
  "record_sample s now head_pose distance =
     (case head_pose of (pitch, yaw, roll) \<Rightarrow>
        (let s1 = s\<lparr> pitch_history := deque_append 30 (pitch_history s) pitch,
                     yaw_history := deque_append 30 (yaw_history s) yaw,
                     roll_history := deque_append 30 (roll_history s) roll,
                     distance_history := deque_append 30 (distance_history s) distance \<rparr>
         in if posture_is_calibrating s1 then
              (let c = s1\<lparr>calibration_data :=
                           calibration_data s1 @ [(pitch, yaw, roll, distance)]\<rparr>
               in if now - posture_calibration_start_time c \<ge> posture_calibration_duration
                  then PostureAnalyzer_complete_calibration c else c)
            else s1))"

definition time_bad_posture :: "posture_analyzer \<Rightarrow> real \<Rightarrow> posture_analyzer" where
  "time_bad_posture s2 now =
     (if get_status s2 \<noteq> POSTURE_GOOD then
        (let s3 = (if bad_posture_start_time s2 = None
                   then s2\<lparr>bad_posture_start_time := Some now\<rparr> else s2)
         in s3\<lparr>current_bad_posture_duration := now - the (bad_posture_start_time s3)\<rparr>)
      else
        (let s3 = (if truthy (bad_posture_start_time s2)
                   then s2\<lparr>total_bad_posture_time :=
                             total_bad_posture_time s2 + current_bad_posture_duration s2\<rparr>
                   else s2)
         in s3\<lparr>bad_posture_start_time := None, current_bad_posture_duration := 0\<rparr>))"

text \<open>
  A posture analyzer after calibration whose smoothed roll is 30 degrees and smoothed
  distance 5 cm (score 45, status warning), in bad posture since second 0 with the
  current duration \<open>d\<close>.
\<close>

definition tilted :: "real \<Rightarrow> posture_analyzer" where
  "tilted d =
     (posture_analyzer_init 0)
       \<lparr> roll_history := [30], distance_history := [5], posture_is_calibrating := False,
         bad_posture_start_time := Some 0, current_bad_posture_duration := d \<rparr>"

text \<open>
  A running monitor built at second 0 that holds the armed engine, and a running monitor
  straight after construction.
\<close>

definition armed_monitor :: health_monitor where
  "armed_monitor = (health_monitor_init 0 0)\<lparr>is_running := True, alert_system := armed_engine\<rparr>"

definition fresh_monitor :: health_monitor where
  "fresh_monitor = (health_monitor_init 0 0)\<lparr>is_running := True\<rparr>"

text \<open>
  The monitor after the three tracker updates of a present tick, before the alerts are
  evaluated.
\<close>

definition tracked ::
  "health_monitor \<Rightarrow> real \<Rightarrow> nat \<Rightarrow> real \<Rightarrow> real \<Rightarrow> real \<times> real \<times> real \<Rightarrow> real \<Rightarrow> health_monitor" where
  "tracked hm now today left_ear right_ear head_pose distance =
     hm\<lparr> screen_time_tracker :=
            ScreenTimeTracker_update (screen_time_tracker hm) now today True,
          eye_tracker := fst (EyeTracker_update (eye_tracker hm) now left_ear right_ear),
          posture_analyzer :=
            PostureAnalyzer_update (posture_analyzer hm) now head_pose distance \<rparr>"

text \<open>
  The alert engine as the triggers of \<^verbatim>\<open>_check_and_send_alerts\<close> leave it, before its
  last line calls \<^verbatim>\<open>check_escalations\<close>: the eye-strain, posture and break alerts have
  been offered to \<^verbatim>\<open>create_alert\<close>.
\<close>

definition triggered_alerts ::
  "health_monitor \<Rightarrow> real \<Rightarrow> nat \<Rightarrow> eye_health_metrics \<Rightarrow> posture_metrics \<Rightarrow> screen_time_stats
     \<Rightarrow> alert_system" where
  "triggered_alerts hm now today eye_m posture_m screen_stats =
     (let a0 = alert_system hm;
          a1 = (if eye_status eye_m = EYE_CRITICAL then
                  (let recm = EyeTracker_get_recommendation (eye_tracker hm) now
                   in create_eye_strain_alert a0 now today CRITICAL
                        (''Your eye strain score is '' @ fmt0 (eye_strain_score eye_m) @ ''%'')
                        (or_default recm ''Take a break and rest your eyes''))
                else if eye_status eye_m = EYE_WARNING then
                  (let recm = EyeTracker_get_recommendation (eye_tracker hm) now
                   in create_eye_strain_alert a0 now today WARNING
                        (''Your blink rate is lower than normal ('' @ fmt1 (blink_rate eye_m)
                         @ '' blinks/min)'')
                        (or_default recm ''Try to blink more often''))
                else a0);
          a2 = (if should_alert (posture_analyzer hm) then
                  (let recm = PostureAnalyzer_get_recommendation (posture_analyzer hm);
                       sev = (if posture_status posture_m = POOR then CRITICAL else WARNING)
                   in create_posture_alert a1 now today sev
                        (''Poor posture detected for '' @ fmt0 (bad_posture_duration posture_m)
                         @ '' seconds'')
                        (or_default recm ''Adjust your sitting position''))
                else a1)
      in case get_break_recommendation (screen_time_tracker hm) now of
           None \<Rightarrow> a2
         | Some break_rec \<Rightarrow>
             (let sev = (if break_type break_rec = LONG then WARNING else INFO)
              in create_break_alert a2 now today sev (reason break_rec)
                   (join_lines (take 3 (exercises break_rec)))))"

text \<open>
  The same engine for a whole present tick: the trackers are updated, the metrics are
  read from the updated trackers, and the triggers run on them.
\<close>

definition present_tick_engine ::
  "health_monitor \<Rightarrow> real \<Rightarrow> nat \<Rightarrow> real \<Rightarrow> real \<Rightarrow> real \<times> real \<times> real \<Rightarrow> real \<Rightarrow> alert_system" where
  "present_tick_engine hm now today left_ear right_ear head_pose distance =
     (let hm3 = tracked hm now today left_ear right_ear head_pose distance
      in triggered_alerts hm3 now today
           (EyeTracker_get_metrics (eye_tracker hm3) now)
           (PostureAnalyzer_get_metrics (posture_analyzer hm3))
           (get_statistics (screen_time_tracker hm3) now))"

text \<open>An alert that is active, allocated, of the given type and not acknowledged.\<close>

definition live :: "alert_system \<Rightarrow> alert_ref \<Rightarrow> alert_type \<Rightarrow> bool" where
  "live s r ty \<longleftrightarrow>
     r \<in> set (active_alerts s) \<and> r < length (objects s)
     \<and> alert_type (objects s ! r) = ty \<and> \<not> acknowledged (objects s ! r)"

section \<open>Verified properties: alert engine\<close>

lemma cooldown_of_values:
  "cooldown_of EYE_STRAIN = 120" "cooldown_of POSTURE = 60" "cooldown_of BREAK_NEEDED = 300"
  "cooldown_of DISTANCE = 30" "cooldown_of BLINK_REMINDER = 45"
  by (simp_all add: cooldown_of_def COOLDOWN_PERIODS_def dict_get_def)

lemma create_alert_Some:
  assumes "create_alert s now today ty sev ttl msg recm = (s', Some r)"
  shows "\<not> is_paused s' \<and> last_alert_times s' ty = Some now
     \<and> length (objects s') = Suc r \<and> r = length (objects s)
     \<and> active_alerts s' = active_alerts s @ [r]"
  using assms
  by (auto simp: create_alert_def can_send_alert_def schedule_escalation_def Let_def
           split: if_splits prod.splits bool.splits)

lemma create_alert_blocked:
  assumes "\<not> is_paused s" "last_alert_times s ty = Some t1" "now - t1 < cooldown_of ty"
  shows "create_alert s now today ty sev ttl msg recm = (s, None)"
  using assms
  by (simp add: create_alert_def can_send_alert_def cooldown_ok_def dict_get_def)

lemma create_alert_allowed:
  assumes "\<not> is_paused s" "last_alert_times s ty = Some t1" "cooldown_of ty \<le> now - t1"
  shows "\<exists>s'. create_alert s now today ty sev ttl msg recm = (s', Some (length (objects s)))
      \<and> active_alerts s' = active_alerts s @ [length (objects s)]
      \<and> alert_history s' = deque_append 100 (alert_history s) (length (objects s))
      \<and> length (objects s') = Suc (length (objects s))
      \<and> take (length (objects s)) (objects s') = objects s
      \<and> alert_type (objects s' ! length (objects s)) = ty
      \<and> timestamp (objects s' ! length (objects s)) = now
      \<and> \<not> acknowledged (objects s' ! length (objects s))
      \<and> last_alert_times s' ty = Some now"
  using assms
  by (simp add: create_alert_def can_send_alert_def cooldown_ok_def dict_get_def
        schedule_escalation_def Let_def)

text \<open>
  Claim C1. For every alert type: if a call of \<^verbatim>\<open>create_alert\<close> at time \<open>t1\<close> created an
  alert, that call added exactly one alert, a second call for the same type at any time
  \<open>t2\<close> with \<open>t2 - t1\<close> below the type's cooldown returns \<open>None\<close> and leaves the whole
  engine (active set, history, last-sent times, daily counter) unchanged, and a call at
  a time \<open>t3\<close> with \<open>t3 - t1\<close> at least the cooldown creates a second, different alert of
  that type.
\<close>

theorem create_alert_cooldown:
  assumes first: "create_alert s t1 d1 ty sev1 ttl1 msg1 rec1 = (s1, Some a1)"
  shows "active_alerts s1 = active_alerts s @ [a1]
       \<and> length (objects s1) = Suc (length (objects s))
       \<and> (t2 - t1 < cooldown_of ty \<longrightarrow>
            create_alert s1 t2 d2 ty sev2 ttl2 msg2 rec2 = (s1, None))
       \<and> (cooldown_of ty \<le> t3 - t1 \<longrightarrow>
            (\<exists>s3 a3. create_alert s1 t3 d3 ty sev3 ttl3 msg3 rec3 = (s3, Some a3)
               \<and> a3 \<noteq> a1
               \<and> active_alerts s3 = active_alerts s1 @ [a3]
               \<and> alert_history s3 = deque_append 100 (alert_history s1) a3
               \<and> length (objects s3) = Suc (length (objects s1))
               \<and> alert_type (objects s3 ! a3) = ty
               \<and> last_alert_times s3 ty = Some t3))"
proof -
  from create_alert_Some[OF first]
  have np: "\<not> is_paused s1" and lt: "last_alert_times s1 ty = Some t1"
    and len: "length (objects s1) = Suc a1"
    and one: "active_alerts s1 = active_alerts s @ [a1] \<and> length (objects s1) = Suc (length (objects s))"
    by simp_all
  have blocked: "t2 - t1 < cooldown_of ty \<longrightarrow>
            create_alert s1 t2 d2 ty sev2 ttl2 msg2 rec2 = (s1, None)"
    by (rule impI) (rule create_alert_blocked[OF np lt])
  have allowed: "cooldown_of ty \<le> t3 - t1 \<longrightarrow>
            (\<exists>s3 a3. create_alert s1 t3 d3 ty sev3 ttl3 msg3 rec3 = (s3, Some a3)
               \<and> a3 \<noteq> a1
               \<and> active_alerts s3 = active_alerts s1 @ [a3]
               \<and> alert_history s3 = deque_append 100 (alert_history s1) a3
               \<and> length (objects s3) = Suc (length (objects s1))
               \<and> alert_type (objects s3 ! a3) = ty
               \<and> last_alert_times s3 ty = Some t3)"
  proof
    assume c: "cooldown_of ty \<le> t3 - t1"
    from create_alert_allowed[OF np lt c, of d3 sev3 ttl3 msg3 rec3]
    obtain s3 where "create_alert s1 t3 d3 ty sev3 ttl3 msg3 rec3 = (s3, Some (length (objects s1)))"
      "active_alerts s3 = active_alerts s1 @ [length (objects s1)]"
      "alert_history s3 = deque_append 100 (alert_history s1) (length (objects s1))"
      "length (objects s3) = Suc (length (objects s1))"
      "alert_type (objects s3 ! length (objects s1)) = ty"
      "last_alert_times s3 ty = Some t3" by blast
    with len show "\<exists>s3 a3. create_alert s1 t3 d3 ty sev3 ttl3 msg3 rec3 = (s3, Some a3)
               \<and> a3 \<noteq> a1
               \<and> active_alerts s3 = active_alerts s1 @ [a3]
               \<and> alert_history s3 = deque_append 100 (alert_history s1) a3
               \<and> length (objects s3) = Suc (length (objects s1))
               \<and> alert_type (objects s3 ! a3) = ty
               \<and> last_alert_times s3 ty = Some t3"
      by (intro exI[of _ s3] exI[of _ "length (objects s1)"]) simp
  qed
  from one blocked allowed show ?thesis by (intro conjI) simp_all
qed

text \<open>
  The theorem at work on a fresh engine: a posture alert at second 1000, a second call
  59 seconds later is refused, a call 60 seconds later succeeds.
\<close>

theorem create_alert_cooldown_witness:
  "create_alert (fst (create_alert (alert_system_init 0) 1000 0 POSTURE WARNING ''t'' ''m'' ''r''))
       1059 0 POSTURE WARNING ''t'' ''m'' ''r''
     = (fst (create_alert (alert_system_init 0) 1000 0 POSTURE WARNING ''t'' ''m'' ''r''), None)
   \<and> snd (create_alert (fst (create_alert (alert_system_init 0) 1000 0 POSTURE WARNING ''t'' ''m'' ''r''))
       1060 0 POSTURE WARNING ''t'' ''m'' ''r'') \<noteq> None"
proof -
  let ?s1 = "fst (create_alert (alert_system_init 0) 1000 0 POSTURE WARNING ''t'' ''m'' ''r'')"
  have first: "create_alert (alert_system_init 0) 1000 0 POSTURE WARNING ''t'' ''m'' ''r''
                 = (?s1, Some 0)"
    by (simp add: create_alert_def can_send_alert_def cooldown_ok_def cooldown_of_def
          alert_system_init_def all_alert_types_def COOLDOWN_PERIODS_def dict_get_def
          schedule_escalation_def Let_def)
  have c: "cooldown_of POSTURE = 60"
    by (simp add: cooldown_of_def COOLDOWN_PERIODS_def dict_get_def)
  from create_alert_cooldown[OF first, of 1059 0 WARNING "''t''" "''m''" "''r''"
         1060 0 WARNING "''t''" "''m''" "''r''"] c
  show ?thesis by auto
qed

lemma dict_items_set: "(k, v) \<in> set (dict_items m) \<longleftrightarrow> m k = Some v"
  by (cases k) (auto simp: dict_items_def all_alert_types_def split: option.splits)

lemma dict_items_distinct: "distinct (map fst (dict_items m))"
  by (auto simp: dict_items_def all_alert_types_def split: option.splits)

lemma escalation_scan_result:
  "escalation_scan s now items pend todo =
     ((\<lambda>k. if \<exists>et. (k, et) \<in> set items \<and> et \<le> now then None else pend k),
      todo @ map fst (filter (\<lambda>(k, et). et \<le> now \<and> unacknowledged_of s k \<noteq> []) items))"
proof (induction items arbitrary: pend todo)
  case Nil
  then show ?case by simp
next
  case (Cons p items)
  obtain k et where p: "p = (k, et)" by (cases p)
  show ?case
    unfolding p by (auto simp: Cons.IH fun_eq_iff)
qed

lemma escalation_bump_get:
  "dict_get (escalation_bump todo counts) k 0 = dict_get counts k 0 + int (count_list todo k)"
  by (induction todo arbitrary: counts) (auto simp: dict_get_def)

lemma escalation_bump_untouched:
  "k \<notin> set todo \<Longrightarrow> escalation_bump todo counts k = counts k"
  by (induction todo arbitrary: counts) auto

lemma count_list_distinct: "distinct xs \<Longrightarrow> count_list xs x = (if x \<in> set xs then 1 else 0)"
  by (induction xs) auto

lemma check_escalations_pending:
  "pending_escalations (check_escalations s now) k =
     (case pending_escalations s k of
        None \<Rightarrow> None
      | Some et \<Rightarrow> if et \<le> now then None else Some et)"
  by (auto simp: check_escalations_def escalation_scan_result dict_items_set split: option.splits)

lemma check_escalations_todo:
  "k \<in> set (map fst (filter (\<lambda>(k, et). et \<le> now \<and> unacknowledged_of s k \<noteq> [])
                 (dict_items (pending_escalations s))))
   \<longleftrightarrow> (\<exists>et. pending_escalations s k = Some et \<and> et \<le> now \<and> unacknowledged_of s k \<noteq> [])"
  by (auto simp: dict_items_set image_iff)

lemma check_escalations_count:
  "dict_get (escalation_counts (check_escalations s now)) k 0 =
     dict_get (escalation_counts s) k 0 +
     (if \<exists>et. pending_escalations s k = Some et \<and> et \<le> now \<and> unacknowledged_of s k \<noteq> []
      then 1 else 0)"
proof -
  let ?todo = "map fst (filter (\<lambda>(k, et). et \<le> now \<and> unacknowledged_of s k \<noteq> [])
                 (dict_items (pending_escalations s)))"
  have d: "distinct ?todo"
    using dict_items_distinct[of "pending_escalations s"] by (rule distinct_map_filter)
  have "dict_get (escalation_counts (check_escalations s now)) k 0
          = dict_get (escalation_counts s) k 0 + int (count_list ?todo k)"
    by (simp add: check_escalations_def escalation_scan_result escalation_bump_get)
  also have "count_list ?todo k = (if k \<in> set ?todo then 1 else 0)"
    using d by (rule count_list_distinct)
  finally show ?thesis
    unfolding check_escalations_todo by auto
qed

lemma check_escalations_count_raw:
  "pending_escalations s k = None \<Longrightarrow>
     escalation_counts (check_escalations s now) k = escalation_counts s k"
  by (simp add: check_escalations_def escalation_scan_result escalation_bump_untouched
        dict_items_set image_iff)

text \<open>
  Claim C2. For every alert type \<open>ty\<close>: when \<^verbatim>\<open>check_escalations\<close> runs at a time \<open>now\<close> at
  or after the armed time \<open>et\<close> of the type, the armed timer is cleared, and the type's
  escalation count grows by exactly one if an unacknowledged active alert of the type
  exists and stays as it is otherwise. Acknowledging an alert of type \<open>ty\<close> removes the
  armed timer and sets the count to 0, and a later \<^verbatim>\<open>check_escalations\<close> (at any time
  \<open>now'\<close>) leaves the count at 0: no increment occurs.
\<close>

theorem escalation_once_or_cancelled:
  "(pending_escalations s ty = Some et \<and> et \<le> now \<longrightarrow>
      pending_escalations (check_escalations s now) ty = None
      \<and> dict_get (escalation_counts (check_escalations s now)) ty 0
          = dict_get (escalation_counts s) ty 0
            + (if unacknowledged_of s ty \<noteq> [] then 1 else 0))
   \<and> (r < length (objects s) \<and> alert_type (objects s ! r) = ty \<longrightarrow>
      pending_escalations (acknowledge_alert s r) ty = None
      \<and> escalation_counts (acknowledge_alert s r) ty = Some 0
      \<and> pending_escalations (check_escalations (acknowledge_alert s r) now') ty = None
      \<and> escalation_counts (check_escalations (acknowledge_alert s r) now') ty = Some 0)"
proof (intro conjI impI)
  assume a: "pending_escalations s ty = Some et \<and> et \<le> now"
  then show "pending_escalations (check_escalations s now) ty = None"
    by (simp add: check_escalations_pending)
  from a show "dict_get (escalation_counts (check_escalations s now)) ty 0
          = dict_get (escalation_counts s) ty 0
            + (if unacknowledged_of s ty \<noteq> [] then 1 else 0)"
    by (simp add: check_escalations_count)
next
  assume b: "r < length (objects s) \<and> alert_type (objects s ! r) = ty"
  then show p: "pending_escalations (acknowledge_alert s r) ty = None"
    by (simp add: acknowledge_alert_def Let_def)
  from b show c: "escalation_counts (acknowledge_alert s r) ty = Some 0"
    by (simp add: acknowledge_alert_def Let_def)
  from p show "pending_escalations (check_escalations (acknowledge_alert s r) now') ty = None"
    by (simp add: check_escalations_pending)
  from p c show "escalation_counts (check_escalations (acknowledge_alert s r) now') ty = Some 0"
    by (simp add: check_escalations_count_raw)
qed

lemma armed_engine_fields:
  "objects (armed_engine) =
     [\<lparr> alert_type = POSTURE, severity = WARNING, title = ''Posture Check'', message = ''m'',
        recommendation = ''r'', timestamp = 1000, acknowledged = False, escalation_level = 0 \<rparr>]"
  "active_alerts armed_engine = [0]"
  "pending_escalations armed_engine POSTURE = Some 1060"
  "dict_get (escalation_counts armed_engine) POSTURE 0 = 0"
  by (simp_all add: armed_engine_def create_alert_def can_send_alert_def cooldown_ok_def
        cooldown_of_def alert_system_init_def all_alert_types_def COOLDOWN_PERIODS_def
        dict_get_def schedule_escalation_def Let_def MAX_ESCALATION_def ESCALATION_INTERVAL_def)

text \<open>
  On the armed engine: the check one second after the armed time raises the count from
  0 to 1 and clears the timer; acknowledging the alert first keeps the count at 0.
\<close>

theorem escalation_once_or_cancelled_witness:
  "pending_escalations armed_engine POSTURE = Some 1060
   \<and> pending_escalations (check_escalations armed_engine 1061) POSTURE = None
   \<and> dict_get (escalation_counts (check_escalations armed_engine 1061)) POSTURE 0 = 1
   \<and> pending_escalations (acknowledge_alert armed_engine 0) POSTURE = None
   \<and> escalation_counts (check_escalations (acknowledge_alert armed_engine 0) 1061) POSTURE = Some 0"
  using escalation_once_or_cancelled[of armed_engine POSTURE 1060 1061 0 1061]
  by (simp add: armed_engine_fields unacknowledged_of_def)

section \<open>Verified properties: screen-time tracker\<close>

lemmas stt_defs = ScreenTimeTracker_update_def check_daily_reset_def start_session_def
  end_session_def screen_time_tracker_init_def in_session_def closed_session_def
  IDLE_THRESHOLD_def duration_def truthy_def deque_append_def Let_def

lemma drive_append:
  "drive s t today (xs @ ys) = drive (drive s t today xs) (t + real (length xs)) today ys"
  by (induction xs arbitrary: s t) (simp_all add: algebra_simps)

lemma first_present: 
  "ScreenTimeTracker_update (screen_time_tracker_init t0 today) t today True = in_session t0 today t t"
  by (simp add: stt_defs)

lemma next_present:
  "ScreenTimeTracker_update (in_session t0 today opened lastp) t today True = in_session t0 today opened t"
  by (simp add: stt_defs)

lemma absent_short:
  "t - lastp < 30 \<Longrightarrow>
   ScreenTimeTracker_update (in_session t0 today opened lastp) t today False = in_session t0 today opened lastp"
  by (simp add: stt_defs)

lemma absent_long:
  "30 \<le> t - lastp \<Longrightarrow>
   ScreenTimeTracker_update (in_session t0 today opened lastp) t today False
     = closed_session t0 today opened lastp t"
  by (simp add: stt_defs)

lemma absent_closed:
  "ScreenTimeTracker_update (closed_session t0 today opened lastp c) t today False
     = closed_session t0 today opened lastp c"
  by (simp add: stt_defs)

lemma present_closed:
  "ScreenTimeTracker_update (closed_session t0 today opened lastp c) t today True
     = (closed_session t0 today opened lastp c)
         \<lparr> current_session := Some \<lparr>start_time = t, end_time = None, breaks_taken = 0\<rparr>,
           last_activity_time := t, is_user_present := True, continuous_work_time := 0 \<rparr>"
  by (simp add: stt_defs)

lemma drive_present:
  "drive (in_session t0 today opened lastp) t today (replicate (Suc n) True)
     = in_session t0 today opened (t + real n)"
proof (induction n arbitrary: lastp t)
  case 0
  then show ?case by (simp add: next_present)
next
  case (Suc n)
  have "drive (in_session t0 today opened lastp) t today (replicate (Suc (Suc n)) True)
          = drive (in_session t0 today opened t) (t + 1) today (replicate (Suc n) True)"
    by (simp add: next_present)
  also have "\<dots> = in_session t0 today opened (t + 1 + real n)"
    by (rule Suc.IH)
  finally show ?case by (simp add: algebra_simps)
qed

lemma drive_absent_short:
  "t + real n - 1 - lastp < 30 \<Longrightarrow>
   drive (in_session t0 today opened lastp) t today (replicate n False)
     = in_session t0 today opened lastp"
proof (induction n arbitrary: t)
  case 0
  then show ?case by simp
next
  case (Suc n)
  have "t - lastp < 30" using Suc.prems by simp
  moreover have "(t + 1) + real n - 1 - lastp < 30" using Suc.prems by simp
  ultimately show ?case using Suc.IH[of "t + 1"] by (simp add: absent_short)
qed

lemma drive_absent_closed:
  "drive (closed_session t0 today opened lastp c) t today (replicate n False)
     = closed_session t0 today opened lastp c"
  by (induction n arbitrary: t) (simp_all add: absent_closed)

lemma drive_100_40:
  "drive (screen_time_tracker_init t0 today) t today (replicate 100 True @ replicate 40 False)
     = closed_session t0 today t (t + 99) (t + 129)"
proof -
  have p: "drive (screen_time_tracker_init t0 today) t today (replicate 100 True)
             = in_session t0 today t (t + 99)"
  proof -
    have "replicate 100 True = True # replicate (Suc 98) True"
      by (simp add: numeral_eq_Suc)
    then show ?thesis
      using drive_present[of t0 today t t "t + 1" 98] by (simp add: first_present algebra_simps)
  qed
  have split: "replicate 40 False = replicate 29 False @ False # replicate 10 False"
    by (simp add: numeral_eq_Suc)
  have a: "drive (in_session t0 today t (t + 99)) (t + 100) today (replicate 29 False)
             = in_session t0 today t (t + 99)"
    by (rule drive_absent_short) simp
  have b: "ScreenTimeTracker_update (in_session t0 today t (t + 99)) (t + 129) today False
             = closed_session t0 today t (t + 99) (t + 129)"
    by (rule absent_long) simp
  show ?thesis
    unfolding drive_append p split
    by (simp add: a b drive_absent_closed add.commute)
qed

text \<open>
  Claim C3 as stated fails. After 100 present ticks (seconds 1 to 100) and 40 absent
  ticks (seconds 101 to 140) one session is closed, but its recorded duration is 129
  seconds: it runs to the tick that closes it, 30 idle seconds after the last present
  tick. The elapsed presence time, from the first to the last present tick, is 99.
\<close>

theorem session_duration_counterexample:
  "length (sessions_today run_100_40) = 1
   \<and> duration (hd (sessions_today run_100_40)) 140 = 129
   \<and> last_activity_time run_100_40 - start_time (hd (sessions_today run_100_40)) = 99
   \<and> duration (hd (sessions_today run_100_40)) 140
       \<noteq> last_activity_time run_100_40 - start_time (hd (sessions_today run_100_40))"
  unfolding run_100_40_def drive_100_40
  by (simp add: closed_session_def screen_time_tracker_init_def duration_def truthy_def)

text \<open>
  Claim C3, amended. For a fresh tracker ticked once per second from any time \<open>t\<close>, 100
  present ticks followed by 40 absent ticks close exactly one session. It is closed at
  the absent tick where the idle time reaches 30 seconds, and its recorded duration runs
  from the first present tick to that closing tick: 129 seconds, the 99 seconds of
  presence plus the 30 idle seconds. A subsequent present tick opens a new session and
  keeps the closed one.
\<close>

theorem session_closed_after_idle_threshold:
  "sessions_today (drive (screen_time_tracker_init t0 today) t today
                     (replicate 100 True @ replicate 40 False))
     = [\<lparr>start_time = t, end_time = Some (t + 129), breaks_taken = 0\<rparr>]
   \<and> current_session (drive (screen_time_tracker_init t0 today) t today
                     (replicate 100 True @ replicate 40 False)) = None
   \<and> total_screen_time_today (drive (screen_time_tracker_init t0 today) t today
                     (replicate 100 True @ replicate 40 False)) = 129
   \<and> last_activity_time (drive (screen_time_tracker_init t0 today) t today
                     (replicate 100 True @ replicate 40 False)) = t + 99
   \<and> idle_periods (drive (screen_time_tracker_init t0 today) t today
                     (replicate 100 True @ replicate 40 False))
       = [\<lparr>idle_start = t + 99, idle_duration = 30\<rparr>]
   \<and> current_session (drive (screen_time_tracker_init t0 today) t today
                     (replicate 100 True @ replicate 40 False @ [True]))
       = Some \<lparr>start_time = t + 140, end_time = None, breaks_taken = 0\<rparr>
   \<and> sessions_today (drive (screen_time_tracker_init t0 today) t today
                     (replicate 100 True @ replicate 40 False @ [True]))
       = [\<lparr>start_time = t, end_time = Some (t + 129), breaks_taken = 0\<rparr>]"
proof -
  have more: "drive (screen_time_tracker_init t0 today) t today
                (replicate 100 True @ replicate 40 False @ [True])
              = ScreenTimeTracker_update (closed_session t0 today t (t + 99) (t + 129))
                  (t + 140) today True"
    using drive_append[of "screen_time_tracker_init t0 today" t today
            "replicate 100 True @ replicate 40 False" "[True]"]
    by (simp add: drive_100_40)
  show ?thesis
    unfolding more present_closed drive_100_40
    by (simp add: closed_session_def screen_time_tracker_init_def)
qed

lemma break_intervals:
  "LONG_BREAK_INTERVAL = 5400" "SHORT_BREAK_INTERVAL = 2700" "MICRO_BREAK_INTERVAL = 1200"
  by (simp_all add: LONG_BREAK_INTERVAL_def SHORT_BREAK_INTERVAL_def MICRO_BREAK_INTERVAL_def)

text \<open>
  Claim C5. \<^verbatim>\<open>get_break_recommendation\<close> checks the tiers in the order long, short, micro:
  whenever the long interval (90 min) has elapsed it returns the long recommendation,
  whatever the state of the other two, in particular when all three are overdue;
  otherwise the short one if the short interval (45 min) has elapsed; otherwise the micro
  one if the micro interval (20 min) has elapsed; otherwise \<open>None\<close>.
\<close>

theorem break_priority:
  "(LONG_BREAK_INTERVAL \<le> now - last_long_break s \<longrightarrow>
      (\<exists>r. get_break_recommendation s now = Some r \<and> break_type r = LONG))
   \<and> (now - last_long_break s < LONG_BREAK_INTERVAL
        \<and> SHORT_BREAK_INTERVAL \<le> now - last_short_break s \<longrightarrow>
      (\<exists>r. get_break_recommendation s now = Some r \<and> break_type r = SHORT))
   \<and> (now - last_long_break s < LONG_BREAK_INTERVAL
        \<and> now - last_short_break s < SHORT_BREAK_INTERVAL
        \<and> MICRO_BREAK_INTERVAL \<le> now - last_micro_break s \<longrightarrow>
      (\<exists>r. get_break_recommendation s now = Some r \<and> break_type r = MICRO))
   \<and> (now - last_long_break s < LONG_BREAK_INTERVAL
        \<and> now - last_short_break s < SHORT_BREAK_INTERVAL
        \<and> now - last_micro_break s < MICRO_BREAK_INTERVAL \<longrightarrow>
      get_break_recommendation s now = None)
   \<and> LONG_BREAK_INTERVAL = 90 * 60 \<and> SHORT_BREAK_INTERVAL = 45 * 60
   \<and> MICRO_BREAK_INTERVAL = 20 * 60"
  by (simp add: get_break_recommendation_def Let_def break_intervals)

text \<open>The four cases of the theorem on concrete trackers at second 6000.\<close>

theorem break_priority_witness:
  "break_type (the (get_break_recommendation (screen_time_tracker_init 0 0) 6000)) = LONG
   \<and> break_type (the (get_break_recommendation
          ((screen_time_tracker_init 0 0)\<lparr>last_long_break := 3000\<rparr>) 6000)) = SHORT
   \<and> break_type (the (get_break_recommendation
          ((screen_time_tracker_init 0 0)\<lparr>last_long_break := 3000, last_short_break := 4000\<rparr>)
          6000)) = MICRO
   \<and> get_break_recommendation (screen_time_tracker_init 5000 0) 6000 = None"
proof -
  have i: "LONG_BREAK_INTERVAL = 5400" "SHORT_BREAK_INTERVAL = 2700" "MICRO_BREAK_INTERVAL = 1200"
    by (simp_all add: LONG_BREAK_INTERVAL_def SHORT_BREAK_INTERVAL_def MICRO_BREAK_INTERVAL_def)
  show ?thesis
    using break_priority[of 6000 "screen_time_tracker_init 0 0"]
      break_priority[of 6000 "(screen_time_tracker_init 0 0)\<lparr>last_long_break := 3000\<rparr>"]
      break_priority[of 6000 "(screen_time_tracker_init 0 0)\<lparr>last_long_break := 3000, last_short_break := 4000\<rparr>"]
      break_priority[of 6000 "screen_time_tracker_init 5000 0"]
    by (auto simp: i screen_time_tracker_init_def)
qed

section \<open>Verified properties: eye tracker\<close>

lemma blink_thresholds:
  "EAR_BLINK_THRESHOLD = 0.21" "MIN_BLINK_DURATION = 0.05" "MAX_BLINK_DURATION = 0.5"
  by (simp_all add: EAR_BLINK_THRESHOLD_def MIN_BLINK_DURATION_def MAX_BLINK_DURATION_def)

lemma complete_calibration_keeps:
  "blink_history (EyeTracker_complete_calibration s) = blink_history s"
  "last_blink_time (EyeTracker_complete_calibration s) = last_blink_time s"
  "is_eye_closed (EyeTracker_complete_calibration s) = is_eye_closed s"
  "eye_close_start_time (EyeTracker_complete_calibration s) = eye_close_start_time s"
  "ear_history (EyeTracker_complete_calibration s) = ear_history s"
  by (simp_all add: EyeTracker_complete_calibration_def Let_def)

lemma update_rising_blink:
  assumes "is_eye_closed s" "eye_close_start_time s = Some t0" "t0 \<noteq> 0"
    "EAR_BLINK_THRESHOLD \<le> (l + r) / 2"
    "MIN_BLINK_DURATION \<le> now - t0" "now - t0 \<le> MAX_BLINK_DURATION"
  shows "snd (EyeTracker_update s now l r) = Some \<lparr>blink_timestamp = now, blink_duration = now - t0\<rparr>"
    "blink_history (fst (EyeTracker_update s now l r))
       = deque_append 100 (blink_history s) \<lparr>blink_timestamp = now, blink_duration = now - t0\<rparr>"
    "last_blink_time (fst (EyeTracker_update s now l r)) = now"
    "\<not> is_eye_closed (fst (EyeTracker_update s now l r))"
  using assms
  by (simp_all add: EyeTracker_update_def Let_def truthy_def complete_calibration_keeps
        split: prod.splits)

lemma update_rising_no_blink:
  assumes "is_eye_closed s" "eye_close_start_time s = Some t0" "t0 \<noteq> 0"
    "EAR_BLINK_THRESHOLD \<le> (l + r) / 2"
    "now - t0 < MIN_BLINK_DURATION \<or> MAX_BLINK_DURATION < now - t0"
  shows "snd (EyeTracker_update s now l r) = None"
    "blink_history (fst (EyeTracker_update s now l r)) = blink_history s"
    "last_blink_time (fst (EyeTracker_update s now l r)) = last_blink_time s"
    "\<not> is_eye_closed (fst (EyeTracker_update s now l r))"
  using assms
  by (auto simp add: EyeTracker_update_def Let_def truthy_def complete_calibration_keeps
        split: prod.splits)

lemma update_no_transition:
  assumes "\<not> is_eye_closed s \<or> (l + r) / 2 < EAR_BLINK_THRESHOLD"
  shows "snd (EyeTracker_update s now l r) = None"
    "blink_history (fst (EyeTracker_update s now l r)) = blink_history s"
    "last_blink_time (fst (EyeTracker_update s now l r)) = last_blink_time s"
  using assms
  by (auto simp add: EyeTracker_update_def Let_def truthy_def complete_calibration_keeps
        split: prod.splits)

lemma update_falling:
  assumes "\<not> is_eye_closed s" "(l + r) / 2 < EAR_BLINK_THRESHOLD"
  shows "is_eye_closed (fst (EyeTracker_update s now l r))"
    "eye_close_start_time (fst (EyeTracker_update s now l r)) = Some now"
  using assms
  by (auto simp add: EyeTracker_update_def Let_def truthy_def complete_calibration_keeps
        split: prod.splits)

lemma update_stays_closed:
  assumes "is_eye_closed s" "(l + r) / 2 < EAR_BLINK_THRESHOLD"
  shows "is_eye_closed (fst (EyeTracker_update s now l r))"
    "eye_close_start_time (fst (EyeTracker_update s now l r)) = eye_close_start_time s"
  using assms
  by (auto simp add: EyeTracker_update_def Let_def truthy_def complete_calibration_keeps
        split: prod.splits)

lemma deque_append_short: "length xs < n \<Longrightarrow> deque_append n xs x = xs @ [x]"
  by (simp add: deque_append_def Let_def)

text \<open>
  Whenever the eyes are recorded as closed, the time they closed is recorded too, and
  it is a clock reading; clock readings are seconds since 1970 and never 0.
\<close>

lemma eye_close_start_known:
  assumes "is_eye_closed s \<longrightarrow> (\<exists>t0. eye_close_start_time s = Some t0 \<and> t0 \<noteq> 0)" "now \<noteq> 0"
  shows "is_eye_closed (fst (EyeTracker_update s now l r)) \<longrightarrow>
           (\<exists>t0. eye_close_start_time (fst (EyeTracker_update s now l r)) = Some t0 \<and> t0 \<noteq> 0)"
  using assms
  by (auto simp add: EyeTracker_update_def Let_def truthy_def complete_calibration_keeps
        split: prod.splits)

text \<open>
  Claim C4. A tick is a closed-to-open transition when the eyes are recorded as closed
  (since the clock reading \<open>t0\<close>) and the average ratio is back at 0.21 or above. On such
  a tick, with \<open>d = now - t0\<close>: if \<open>0.05 \<le> d \<le> 0.5\<close>, exactly one blink event with
  timestamp \<open>now\<close> and duration \<open>d\<close> is returned and appended to the bounded history, and
  \<^verbatim>\<open>last_blink_time\<close> becomes \<open>now\<close>; if \<open>d\<close> is outside the band, no event is returned
  and history and \<^verbatim>\<open>last_blink_time\<close> stay as they are; in both cases the eyes are open
  afterwards. A tick that is no such transition (eyes not recorded as closed, or average
  below 0.21) returns no event and leaves history and \<^verbatim>\<open>last_blink_time\<close> alone. The
  falling edge records \<open>now\<close> as the start of the closed interval.
\<close>

theorem blink_detection:
  "(is_eye_closed s \<and> eye_close_start_time s = Some t0 \<and> t0 \<noteq> 0
      \<and> EAR_BLINK_THRESHOLD \<le> (l + r) / 2 \<longrightarrow>
        (MIN_BLINK_DURATION \<le> now - t0 \<and> now - t0 \<le> MAX_BLINK_DURATION \<longrightarrow>
           snd (EyeTracker_update s now l r)
             = Some \<lparr>blink_timestamp = now, blink_duration = now - t0\<rparr>
           \<and> blink_history (fst (EyeTracker_update s now l r))
             = deque_append 100 (blink_history s)
                 \<lparr>blink_timestamp = now, blink_duration = now - t0\<rparr>
           \<and> (length (blink_history s) < 100 \<longrightarrow>
                blink_history (fst (EyeTracker_update s now l r))
                  = blink_history s @ [\<lparr>blink_timestamp = now, blink_duration = now - t0\<rparr>])
           \<and> last_blink_time (fst (EyeTracker_update s now l r)) = now)
      \<and> (now - t0 < MIN_BLINK_DURATION \<or> MAX_BLINK_DURATION < now - t0 \<longrightarrow>
           snd (EyeTracker_update s now l r) = None
           \<and> blink_history (fst (EyeTracker_update s now l r)) = blink_history s
           \<and> last_blink_time (fst (EyeTracker_update s now l r)) = last_blink_time s)
      \<and> \<not> is_eye_closed (fst (EyeTracker_update s now l r)))
   \<and> (\<not> is_eye_closed s \<or> (l + r) / 2 < EAR_BLINK_THRESHOLD \<longrightarrow>
        snd (EyeTracker_update s now l r) = None
        \<and> blink_history (fst (EyeTracker_update s now l r)) = blink_history s
        \<and> last_blink_time (fst (EyeTracker_update s now l r)) = last_blink_time s)
   \<and> (\<not> is_eye_closed s \<and> (l + r) / 2 < EAR_BLINK_THRESHOLD \<longrightarrow>
        is_eye_closed (fst (EyeTracker_update s now l r))
        \<and> eye_close_start_time (fst (EyeTracker_update s now l r)) = Some now)
   \<and> EAR_BLINK_THRESHOLD = 0.21 \<and> MIN_BLINK_DURATION = 0.05 \<and> MAX_BLINK_DURATION = 0.5"
proof -
  have rising: "is_eye_closed s \<and> eye_close_start_time s = Some t0 \<and> t0 \<noteq> 0
      \<and> EAR_BLINK_THRESHOLD \<le> (l + r) / 2 \<longrightarrow>
        (MIN_BLINK_DURATION \<le> now - t0 \<and> now - t0 \<le> MAX_BLINK_DURATION \<longrightarrow>
           snd (EyeTracker_update s now l r)
             = Some \<lparr>blink_timestamp = now, blink_duration = now - t0\<rparr>
           \<and> blink_history (fst (EyeTracker_update s now l r))
             = deque_append 100 (blink_history s)
                 \<lparr>blink_timestamp = now, blink_duration = now - t0\<rparr>
           \<and> (length (blink_history s) < 100 \<longrightarrow>
                blink_history (fst (EyeTracker_update s now l r))
                  = blink_history s @ [\<lparr>blink_timestamp = now, blink_duration = now - t0\<rparr>])
           \<and> last_blink_time (fst (EyeTracker_update s now l r)) = now)
      \<and> (now - t0 < MIN_BLINK_DURATION \<or> MAX_BLINK_DURATION < now - t0 \<longrightarrow>
           snd (EyeTracker_update s now l r) = None
           \<and> blink_history (fst (EyeTracker_update s now l r)) = blink_history s
           \<and> last_blink_time (fst (EyeTracker_update s now l r)) = last_blink_time s)
      \<and> \<not> is_eye_closed (fst (EyeTracker_update s now l r))"
  proof (intro impI conjI; (elim conjE)?)
    assume h: "is_eye_closed s" "eye_close_start_time s = Some t0" "t0 \<noteq> 0"
      "EAR_BLINK_THRESHOLD \<le> (l + r) / 2"
    show "\<not> is_eye_closed (fst (EyeTracker_update s now l r))"
      using update_rising_blink(4)[OF h] update_rising_no_blink(4)[OF h] by force
    {
      assume d: "MIN_BLINK_DURATION \<le> now - t0" "now - t0 \<le> MAX_BLINK_DURATION"
      note b = update_rising_blink[OF h d]
      show "snd (EyeTracker_update s now l r)
             = Some \<lparr>blink_timestamp = now, blink_duration = now - t0\<rparr>" by (rule b(1))
      show "blink_history (fst (EyeTracker_update s now l r))
             = deque_append 100 (blink_history s)
                 \<lparr>blink_timestamp = now, blink_duration = now - t0\<rparr>" by (rule b(2))
      show "last_blink_time (fst (EyeTracker_update s now l r)) = now" by (rule b(3))
      {
        assume "length (blink_history s) < 100"
        then show "blink_history (fst (EyeTracker_update s now l r))
                  = blink_history s @ [\<lparr>blink_timestamp = now, blink_duration = now - t0\<rparr>]"
          by (simp add: b(2) deque_append_short)
      }
    }
    {
      assume d: "now - t0 < MIN_BLINK_DURATION \<or> MAX_BLINK_DURATION < now - t0"
      note n = update_rising_no_blink[OF h d]
      show "snd (EyeTracker_update s now l r) = None" by (rule n(1))
      show "blink_history (fst (EyeTracker_update s now l r)) = blink_history s" by (rule n(2))
      show "last_blink_time (fst (EyeTracker_update s now l r)) = last_blink_time s" by (rule n(3))
    }
  qed
  have none: "\<not> is_eye_closed s \<or> (l + r) / 2 < EAR_BLINK_THRESHOLD \<longrightarrow>
        snd (EyeTracker_update s now l r) = None
        \<and> blink_history (fst (EyeTracker_update s now l r)) = blink_history s
        \<and> last_blink_time (fst (EyeTracker_update s now l r)) = last_blink_time s"
    using update_no_transition[of s l r now] by simp
  have falling: "\<not> is_eye_closed s \<and> (l + r) / 2 < EAR_BLINK_THRESHOLD \<longrightarrow>
        is_eye_closed (fst (EyeTracker_update s now l r))
        \<and> eye_close_start_time (fst (EyeTracker_update s now l r)) = Some now"
    using update_falling[of s l r now] by simp
  from rising none falling show ?thesis
    by (simp only: blink_thresholds simp_thms)
qed

lemma eyes_shut_fields:
  "is_eye_closed eyes_shut" "eye_close_start_time eyes_shut = Some 100"
  "blink_history eyes_shut = []" "last_blink_time eyes_shut = 100"
  by (simp_all add: eyes_shut_def EyeTracker_update_def eye_tracker_init_def Let_def
        EAR_BLINK_THRESHOLD_def eye_calibration_duration_def)

text \<open>
  On the tracker with eyes closed since second 100: opening after 0.2 seconds records a
  blink of 0.2 seconds, opening after 1 second records nothing, staying closed records
  nothing, and an open tick on a fresh tracker records nothing.
\<close>

theorem blink_detection_witness:
  "snd (EyeTracker_update eyes_shut 100.2 0.3 0.3)
     = Some \<lparr>blink_timestamp = 100.2, blink_duration = 0.2\<rparr>
   \<and> blink_history (fst (EyeTracker_update eyes_shut 100.2 0.3 0.3))
     = [\<lparr>blink_timestamp = 100.2, blink_duration = 0.2\<rparr>]
   \<and> last_blink_time (fst (EyeTracker_update eyes_shut 100.2 0.3 0.3)) = 100.2
   \<and> snd (EyeTracker_update eyes_shut 101 0.3 0.3) = None
   \<and> blink_history (fst (EyeTracker_update eyes_shut 101 0.3 0.3)) = []
   \<and> snd (EyeTracker_update eyes_shut 100.2 0.1 0.1) = None
   \<and> snd (EyeTracker_update (eye_tracker_init 100) 100.2 0.3 0.3) = None
   \<and> eye_close_start_time (fst (EyeTracker_update (eye_tracker_init 100) 100 0.1 0.1)) = Some 100"
  using blink_detection[where s = eyes_shut and ?t0.0 = 100 and l = "0.3" and r = "0.3" and now = "100.2"]
    blink_detection[where s = eyes_shut and ?t0.0 = 100 and l = "0.3" and r = "0.3" and now = 101]
    blink_detection[where s = eyes_shut and ?t0.0 = 100 and l = "0.1" and r = "0.1" and now = "100.2"]
    blink_detection[where s = "eye_tracker_init 100" and ?t0.0 = 100 and l = "0.3" and r = "0.3" and now = "100.2"]
    blink_detection[where s = "eye_tracker_init 100" and ?t0.0 = 100 and l = "0.1" and r = "0.1" and now = 100]
  by (simp add: eyes_shut_fields eye_tracker_init_def deque_append_def)

lemma if_add_else:
  "(if c then x + a else x + y) = x + (if c then a else (y::real))"
  by simp

lemma if_add_last:
  "(if c then x + a else x) = x + (if c then a else (0::real))"
  by simp

lemma strain_score_of_sum:
  "strain_score_of rate t e b = min 100 (rate_tier rate + idle_tier t + ear_tier e + deviation_tier b rate)"
  unfolding strain_score_of_def Let_def if_add_last if_add_else
    rate_tier_def idle_tier_def ear_tier_def deviation_tier_def deviation_penalty_def
    CRITICAL_BLINK_RATE_def WARNING_BLINK_RATE_def HEALTHY_BLINK_RATE_MIN_def
  by (simp only: add_0_left)

lemma rate_tier_antimono: "r1 \<le> r2 \<Longrightarrow> rate_tier r2 \<le> rate_tier r1"
  by (simp add: rate_tier_def)

lemma tiers_nonneg: "0 \<le> rate_tier r" "0 \<le> idle_tier t" "0 \<le> ear_tier e" "0 \<le> deviation_tier b r"
  by (simp_all add: rate_tier_def idle_tier_def ear_tier_def deviation_tier_def
        deviation_penalty_def)

lemma deviation_penalty_mono: "d2 \<le> d1 \<Longrightarrow> deviation_penalty d2 \<le> deviation_penalty d1"
  by (simp add: deviation_penalty_def)

lemma deviation_penalty_top: "1 \<le> d \<Longrightarrow> deviation_penalty d = 15"
  by (simp add: deviation_penalty_def)

lemma deviation_tier_antimono:
  assumes "0 \<le> r1" "r1 \<le> r2"
  shows "deviation_tier b r2 \<le> deviation_tier b r1"
proof (cases "truthy b")
  case False
  then show ?thesis by (simp add: deviation_tier_def)
next
  case True
  then obtain v where b: "b = Some v" and v: "v \<noteq> 0"
    by (auto simp: truthy_def split: option.splits)
  show ?thesis
  proof (cases "v > 0")
    case True
    have "(v - r2) / v \<le> (v - r1) / v"
      using True assms by (simp add: divide_right_mono)
    then have "deviation_penalty ((v - r2) / v) \<le> deviation_penalty ((v - r1) / v)"
      by (rule deviation_penalty_mono)
    then show ?thesis
      using b v by (simp add: deviation_tier_def truthy_def)
  next
    case False
    with v have neg: "v < 0" by simp
    have "1 \<le> (v - r1) / v" "1 \<le> (v - r2) / v"
      using neg assms by (simp_all add: field_simps)
    then have "deviation_penalty ((v - r1) / v) = 15" "deviation_penalty ((v - r2) / v) = 15"
      by (simp_all add: deviation_penalty_top)
    then show ?thesis
      using b v by (simp add: deviation_tier_def truthy_def)
  qed
qed

lemma strain_score_of_antimono:
  assumes "0 \<le> r1" "r1 \<le> r2"
  shows "strain_score_of r2 t e b \<le> strain_score_of r1 t e b"
  using rate_tier_antimono[OF assms(2)] deviation_tier_antimono[OF assms, of b]
  by (simp add: strain_score_of_sum min_le_iff_disj)

lemma strain_score_of_bounds: "0 \<le> strain_score_of r t e b \<and> strain_score_of r t e b \<le> 100"
  using tiers_nonneg(1)[of r] tiers_nonneg(2)[of t] tiers_nonneg(3)[of e] tiers_nonneg(4)[of b r]
  by (simp add: strain_score_of_sum)

lemma blink_rate_nonneg: "0 \<le> get_current_blink_rate s now"
  by (simp add: get_current_blink_rate_def Let_def BLINK_HISTORY_WINDOW_def)

text \<open>
  Claim C7. The eye-strain score always lies in \<open>[0, 100]\<close>. For two trackers that agree
  on the time of the last blink, the ratio history and the baseline rate, read at the
  same time, the one with the lower current blink rate has the higher or equal score:
  the score does not decrease as the blink rate decreases.
\<close>

theorem eye_strain_monotone_bounded:
  "0 \<le> calculate_eye_strain_score s now \<and> calculate_eye_strain_score s now \<le> 100
   \<and> (last_blink_time s1 = last_blink_time s2 \<and> ear_history s1 = ear_history s2
        \<and> baseline_blink_rate s1 = baseline_blink_rate s2
        \<and> get_current_blink_rate s1 now \<le> get_current_blink_rate s2 now \<longrightarrow>
      calculate_eye_strain_score s2 now \<le> calculate_eye_strain_score s1 now)"
proof -
  have bounds: "0 \<le> calculate_eye_strain_score s now \<and> calculate_eye_strain_score s now \<le> 100"
    by (simp add: calculate_eye_strain_score_def Let_def strain_score_of_bounds)
  have mono: "last_blink_time s1 = last_blink_time s2 \<and> ear_history s1 = ear_history s2
        \<and> baseline_blink_rate s1 = baseline_blink_rate s2
        \<and> get_current_blink_rate s1 now \<le> get_current_blink_rate s2 now \<longrightarrow>
      calculate_eye_strain_score s2 now \<le> calculate_eye_strain_score s1 now"
  proof
    assume h: "last_blink_time s1 = last_blink_time s2 \<and> ear_history s1 = ear_history s2
        \<and> baseline_blink_rate s1 = baseline_blink_rate s2
        \<and> get_current_blink_rate s1 now \<le> get_current_blink_rate s2 now"
    then have le: "get_current_blink_rate s1 now \<le> get_current_blink_rate s2 now" by simp
    from h have same: "now - last_blink_time s1 = now - last_blink_time s2"
      "mean_ear s1 = mean_ear s2" "baseline_blink_rate s1 = baseline_blink_rate s2"
      by (simp_all add: mean_ear_def)
    show "calculate_eye_strain_score s2 now \<le> calculate_eye_strain_score s1 now"
      unfolding calculate_eye_strain_score_def Let_def same
      by (rule strain_score_of_antimono[OF blink_rate_nonneg le])
  qed
  from bounds mono show ?thesis by (intro conjI) simp_all
qed

text \<open>At second 60 the tracker without blinks (rate 0) scores at least the one with rate 5.\<close>

theorem eye_strain_monotone_bounded_witness:
  "get_current_blink_rate (eye_tracker_init 0) 60 = 0
   \<and> get_current_blink_rate five_blinks 60 = 5
   \<and> calculate_eye_strain_score five_blinks 60 \<le> calculate_eye_strain_score (eye_tracker_init 0) 60"
proof -
  have r: "get_current_blink_rate (eye_tracker_init 0) 60 = 0"
    "get_current_blink_rate five_blinks 60 = 5"
    by (simp_all add: get_current_blink_rate_def five_blinks_def eye_tracker_init_def
          BLINK_HISTORY_WINDOW_def Let_def)
  have f: "last_blink_time (eye_tracker_init 0) = last_blink_time five_blinks"
    "ear_history (eye_tracker_init 0) = ear_history five_blinks"
    "baseline_blink_rate (eye_tracker_init 0) = baseline_blink_rate five_blinks"
    by (simp_all add: five_blinks_def eye_tracker_init_def)
  from eye_strain_monotone_bounded[of "eye_tracker_init 0" 60 "eye_tracker_init 0" five_blinks] r f
  show ?thesis by simp
qed

section \<open>Verified properties: tracker inputs and posture alerts\<close>

lemma posture_complete_calibration_keeps:
  "pitch_history (PostureAnalyzer_complete_calibration s) = pitch_history s"
  "yaw_history (PostureAnalyzer_complete_calibration s) = yaw_history s"
  "roll_history (PostureAnalyzer_complete_calibration s) = roll_history s"
  "distance_history (PostureAnalyzer_complete_calibration s) = distance_history s"
  "bad_posture_start_time (PostureAnalyzer_complete_calibration s) = bad_posture_start_time s"
  "current_bad_posture_duration (PostureAnalyzer_complete_calibration s) = current_bad_posture_duration s"
  by (simp_all add: PostureAnalyzer_complete_calibration_def Let_def)

lemma posture_update_histories:
  "pitch_history (PostureAnalyzer_update s now (pitch, yaw, roll) distance)
     = deque_append 30 (pitch_history s) pitch"
  "yaw_history (PostureAnalyzer_update s now (pitch, yaw, roll) distance)
     = deque_append 30 (yaw_history s) yaw"
  "roll_history (PostureAnalyzer_update s now (pitch, yaw, roll) distance)
     = deque_append 30 (roll_history s) roll"
  "distance_history (PostureAnalyzer_update s now (pitch, yaw, roll) distance)
     = deque_append 30 (distance_history s) distance"
  by (simp_all add: PostureAnalyzer_update_def Let_def posture_complete_calibration_keeps)

lemma eye_update_history:
  "ear_history (fst (EyeTracker_update s now l r)) = deque_append 30 (ear_history s) ((l + r) / 2)"
  by (simp add: EyeTracker_update_def Let_def EyeTracker_complete_calibration_def
        split: prod.splits)

lemma deque_append_last: "0 < n \<Longrightarrow> last (deque_append n xs x) = x"
  by (simp add: deque_append_def Let_def)

lemma PostureAnalyzer_update_split:
  "PostureAnalyzer_update s now pose distance
     = time_bad_posture (record_sample s now pose distance) now"
  by (cases pose)
     (simp add: PostureAnalyzer_update_def record_sample_def time_bad_posture_def Let_def)

lemma if_sub_else:
  "(if c then x - a else x - y) = x - (if c then a else (y::real))"
  by simp

lemma if_sub_last:
  "(if c then x - a else x) = x - (if c then a else (0::real))"
  by simp

lemma posture_score_sum:
  "calculate_posture_score s =
     (case get_smoothed_values s of (pitch, yaw, roll, distance) \<Rightarrow>
        max 0 (100 - pitch_penalty (abs (pitch - or_zero (baseline_pitch s)))
                   - roll_penalty (abs roll)
                   - yaw_penalty (abs (yaw - or_zero (baseline_yaw s)))
                   - distance_penalty distance
                   - duration_penalty (current_bad_posture_duration s)))"
proof -
  have e: "(50::real) + 30 = 80" by simp
  show ?thesis
    unfolding calculate_posture_score_def Let_def if_sub_last if_sub_else
      pitch_penalty_def roll_penalty_def yaw_penalty_def distance_penalty_def
      duration_penalty_def
      FORWARD_HEAD_CRITICAL_def FORWARD_HEAD_WARNING_def HEAD_ROLL_CRITICAL_def
      HEAD_ROLL_WARNING_def HEAD_TILT_CRITICAL_def HEAD_TILT_WARNING_def
      CRITICAL_DISTANCE_MIN_def WARNING_DISTANCE_MIN_def IDEAL_DISTANCE_MIN_def
      IDEAL_DISTANCE_MAX_def e
    by (rule refl)
qed

lemma time_bad_posture_timer:
  assumes "should_alert (time_bad_posture s2 now)"
  shows "\<exists>t0. bad_posture_start_time (time_bad_posture s2 now) = Some t0
        \<and> current_bad_posture_duration (time_bad_posture s2 now) = now - t0
        \<and> 30 \<le> now - t0"
proof (cases "get_status s2 = POSTURE_GOOD")
  case True
  then have "current_bad_posture_duration (time_bad_posture s2 now) = 0"
    by (simp add: time_bad_posture_def Let_def)
  with assms show ?thesis
    by (simp add: should_alert_def BAD_POSTURE_ALERT_THRESHOLD_def)
next
  case False
  then have "\<exists>t0. bad_posture_start_time (time_bad_posture s2 now) = Some t0
        \<and> current_bad_posture_duration (time_bad_posture s2 now) = now - t0"
    by (cases "bad_posture_start_time s2") (simp_all add: time_bad_posture_def Let_def)
  then obtain t0 where t0: "bad_posture_start_time (time_bad_posture s2 now) = Some t0"
    "current_bad_posture_duration (time_bad_posture s2 now) = now - t0" by blast
  from assms have "30 \<le> current_bad_posture_duration (time_bad_posture s2 now)"
    by (simp add: should_alert_def BAD_POSTURE_ALERT_THRESHOLD_def)
  with t0 show ?thesis by simp
qed

lemma fresh_sample:
  "record_sample (posture_analyzer_init 0) 1 (pitch, yaw, roll) distance
     = (posture_analyzer_init 0)
         \<lparr> pitch_history := [pitch], yaw_history := [yaw], roll_history := [roll],
           distance_history := [distance],
           calibration_data := [(pitch, yaw, roll, distance)] \<rparr>"
  by (simp add: record_sample_def posture_analyzer_init_def deque_append_def Let_def
        posture_calibration_duration_def)

lemma penalty_bounds:
  "0 \<le> pitch_penalty d \<and> pitch_penalty d \<le> 30"
  "0 \<le> duration_penalty d \<and> duration_penalty d \<le> 15"
  by (simp_all add: pitch_penalty_def duration_penalty_def)

lemma fresh_sample_score:
  "calculate_posture_score (record_sample (posture_analyzer_init 0) 1 (pitch, 0, 0) 50)
     = 100 - pitch_penalty (abs pitch)"
  unfolding fresh_sample posture_score_sum
  apply (simp only: get_smoothed_values_def posture_analyzer_init_def Let_def)
  apply (simp add: mean_def or_zero_def)
  apply (simp add: roll_penalty_def yaw_penalty_def distance_penalty_def duration_penalty_def)
  using penalty_bounds(1)[of "abs pitch"]
  apply (simp add: max_def)
  done

lemma fresh_sample_good:
  "get_status (record_sample (posture_analyzer_init 0) 1 (pitch, 0, 0) 50) = POSTURE_GOOD"
  unfolding get_status_def Let_def fresh_sample_score
  by (simp add: pitch_penalty_def)

lemma good_posture_tick:
  assumes "get_status s2 = POSTURE_GOOD"
  shows "time_bad_posture s2 now
           = (if truthy (bad_posture_start_time s2)
              then s2\<lparr>total_bad_posture_time :=
                        total_bad_posture_time s2 + current_bad_posture_duration s2\<rparr>
              else s2)
             \<lparr>bad_posture_start_time := None, current_bad_posture_duration := 0\<rparr>"
  using assms by (simp add: time_bad_posture_def Let_def)

lemma fresh_update:
  "PostureAnalyzer_update (posture_analyzer_init 0) 1 (pitch, 0, 0) 50
     = (posture_analyzer_init 0)
         \<lparr> pitch_history := [pitch], yaw_history := [0], roll_history := [0],
           distance_history := [50],
           calibration_data := [(pitch, 0, 0, 50)] \<rparr>"
  apply (subst PostureAnalyzer_update_split)
  apply (subst good_posture_tick[OF fresh_sample_good])
  apply (simp only: fresh_sample)
  apply (simp add: posture_analyzer_init_def truthy_def)
  done

lemma fresh_update_score:
  "calculate_posture_score (PostureAnalyzer_update (posture_analyzer_init 0) 1 (pitch, 0, 0) 50)
     = 100 - pitch_penalty (abs pitch)"
  unfolding fresh_update posture_score_sum
  apply (simp only: get_smoothed_values_def posture_analyzer_init_def Let_def)
  apply (simp add: mean_def or_zero_def)
  apply (simp add: roll_penalty_def yaw_penalty_def distance_penalty_def duration_penalty_def)
  using penalty_bounds(1)[of "abs pitch"]
  apply (simp add: max_def)
  done

text \<open>
  Claim C6 as stated fails: no tracker checks its input. A negative eye-aspect ratio
  (both eyes at \<open>-1\<close>) enters \<^verbatim>\<open>ear_history\<close> as it is and raises the strain score of a
  fresh tracker from 40 (with ratios at 0.3) to 60; a pitch of 1000 degrees enters
  \<^verbatim>\<open>pitch_history\<close> as it is and lowers the posture score from 100 to 70.
\<close>

theorem invalid_signal_counterexample:
  "ear_history (fst (EyeTracker_update (eye_tracker_init 0) 1 (- 1) (- 1))) = [- 1]
   \<and> calculate_eye_strain_score (fst (EyeTracker_update (eye_tracker_init 0) 1 (- 1) (- 1))) 1 = 60
   \<and> calculate_eye_strain_score (fst (EyeTracker_update (eye_tracker_init 0) 1 0.3 0.3)) 1 = 40
   \<and> pitch_history (PostureAnalyzer_update (posture_analyzer_init 0) 1 (1000, 0, 0) 50) = [1000]
   \<and> calculate_posture_score (PostureAnalyzer_update (posture_analyzer_init 0) 1 (1000, 0, 0) 50) = 70
   \<and> calculate_posture_score (PostureAnalyzer_update (posture_analyzer_init 0) 1 (0, 0, 0) 50) = 100"
proof -
  have e1: "EyeTracker_update (eye_tracker_init 0) 1 (- 1) (- 1)
              = ((eye_tracker_init 0)\<lparr>ear_history := [- 1], is_eye_closed := True,
                    eye_close_start_time := Some 1\<rparr>, None)"
    by (simp add: EyeTracker_update_def eye_tracker_init_def deque_append_def Let_def
          EAR_BLINK_THRESHOLD_def eye_calibration_duration_def)
  have e2: "EyeTracker_update (eye_tracker_init 0) 1 0.3 0.3
              = ((eye_tracker_init 0)\<lparr>ear_history := [0.3]\<rparr>, None)"
    by (simp add: EyeTracker_update_def eye_tracker_init_def deque_append_def Let_def
          EAR_BLINK_THRESHOLD_def eye_calibration_duration_def)
  have rate: "get_current_blink_rate ((eye_tracker_init 0)\<lparr>ear_history := [- 1],
               is_eye_closed := True, eye_close_start_time := Some 1\<rparr>) 1 = 0"
    "get_current_blink_rate ((eye_tracker_init 0)\<lparr>ear_history := [0.3]\<rparr>) 1 = 0"
    by (simp_all add: get_current_blink_rate_def eye_tracker_init_def)
  have ear: "mean_ear ((eye_tracker_init 0)\<lparr>ear_history := [- 1],
               is_eye_closed := True, eye_close_start_time := Some 1\<rparr>) = - 1"
    "mean_ear ((eye_tracker_init 0)\<lparr>ear_history := [0.3]\<rparr>) = 0.3"
    by (simp_all add: mean_ear_def)
  have tiers: "strain_score_of 0 1 (- 1) None = 60" "strain_score_of 0 1 0.3 None = 40"
    by (simp_all add: strain_score_of_sum rate_tier_def idle_tier_def ear_tier_def
          deviation_tier_def truthy_def)
  have sc: "calculate_eye_strain_score ((eye_tracker_init 0)\<lparr>ear_history := [- 1],
               is_eye_closed := True, eye_close_start_time := Some 1\<rparr>) 1 = 60"
    "calculate_eye_strain_score ((eye_tracker_init 0)\<lparr>ear_history := [0.3]\<rparr>) 1 = 40"
    unfolding calculate_eye_strain_score_def Let_def rate ear
    by (simp_all add: eye_tracker_init_def tiers)
  have hist: "pitch_history (PostureAnalyzer_update (posture_analyzer_init 0) 1 (1000, 0, 0) 50)
                = [1000]"
    by (simp add: fresh_update)
  have p: "calculate_posture_score (PostureAnalyzer_update (posture_analyzer_init 0) 1 (1000, 0, 0) 50) = 70"
    "calculate_posture_score (PostureAnalyzer_update (posture_analyzer_init 0) 1 (0, 0, 0) 50) = 100"
    unfolding fresh_update_score by (simp_all add: pitch_penalty_def)
  show ?thesis
    unfolding e1 e2 fst_conv sc
    using hist p by simp
qed

text \<open>
  Claim C6, amended. Every tracker update stores its signal input unchecked:
  \<^verbatim>\<open>EyeTracker.update\<close> appends the average of the two ratios to \<^verbatim>\<open>ear_history\<close>, and
  \<^verbatim>\<open>PostureAnalyzer.update\<close> appends pitch, yaw, roll and distance to their histories,
  whatever the values are; the value just given is the newest entry of the buffer the
  scores are computed from.
\<close>

theorem signals_enter_histories_unchecked:
  "ear_history (fst (EyeTracker_update e now l r)) = deque_append 30 (ear_history e) ((l + r) / 2)
   \<and> last (ear_history (fst (EyeTracker_update e now l r))) = (l + r) / 2
   \<and> pitch_history (PostureAnalyzer_update p now (pitch, yaw, roll) distance)
       = deque_append 30 (pitch_history p) pitch
   \<and> yaw_history (PostureAnalyzer_update p now (pitch, yaw, roll) distance)
       = deque_append 30 (yaw_history p) yaw
   \<and> roll_history (PostureAnalyzer_update p now (pitch, yaw, roll) distance)
       = deque_append 30 (roll_history p) roll
   \<and> distance_history (PostureAnalyzer_update p now (pitch, yaw, roll) distance)
       = deque_append 30 (distance_history p) distance
   \<and> last (pitch_history (PostureAnalyzer_update p now (pitch, yaw, roll) distance)) = pitch
   \<and> last (distance_history (PostureAnalyzer_update p now (pitch, yaw, roll) distance)) = distance"
  by (simp add: eye_update_history posture_update_histories deque_append_last)

lemma posture_update_timer:
  "should_alert (PostureAnalyzer_update s now pose distance) \<Longrightarrow>
     \<exists>t0. bad_posture_start_time (PostureAnalyzer_update s now pose distance) = Some t0
        \<and> current_bad_posture_duration (PostureAnalyzer_update s now pose distance) = now - t0
        \<and> 30 \<le> now - t0"
  unfolding PostureAnalyzer_update_split by (rule time_bad_posture_timer)

text \<open>
  Claim C8. \<^verbatim>\<open>should_alert\<close> is false whenever the current bad-posture duration is below
  30 seconds, whatever the status; it is true exactly when the duration is at least 30
  seconds and the status is not good. After an update it can only be true if the
  bad-posture timer was started at least 30 seconds before the tick.
\<close>

theorem should_alert_debounced:
  "(current_bad_posture_duration s < 30 \<longrightarrow> \<not> should_alert s)
   \<and> (should_alert s \<longleftrightarrow> 30 \<le> current_bad_posture_duration s \<and> get_status s \<noteq> POSTURE_GOOD)
   \<and> (should_alert (PostureAnalyzer_update s now pose distance) \<longrightarrow>
        (\<exists>t0. bad_posture_start_time (PostureAnalyzer_update s now pose distance) = Some t0
           \<and> current_bad_posture_duration (PostureAnalyzer_update s now pose distance) = now - t0
           \<and> 30 \<le> now - t0))"
proof -
  have a: "current_bad_posture_duration s < 30 \<longrightarrow> \<not> should_alert s"
    by (simp add: should_alert_def BAD_POSTURE_ALERT_THRESHOLD_def)
  have b: "should_alert s \<longleftrightarrow> 30 \<le> current_bad_posture_duration s \<and> get_status s \<noteq> POSTURE_GOOD"
    by (simp add: should_alert_def BAD_POSTURE_ALERT_THRESHOLD_def)
  have c: "should_alert (PostureAnalyzer_update s now pose distance) \<longrightarrow>
        (\<exists>t0. bad_posture_start_time (PostureAnalyzer_update s now pose distance) = Some t0
           \<and> current_bad_posture_duration (PostureAnalyzer_update s now pose distance) = now - t0
           \<and> 30 \<le> now - t0)"
    by (rule impI) (rule posture_update_timer)
  from a b c show ?thesis by (intro conjI)
qed

lemma tilted_score: "calculate_posture_score (tilted d) = 45 - duration_penalty d"
  unfolding posture_score_sum
  apply (simp only: get_smoothed_values_def tilted_def posture_analyzer_init_def Let_def)
  apply (simp add: mean_def or_zero_def)
  apply (simp add: pitch_penalty_def roll_penalty_def yaw_penalty_def distance_penalty_def)
  using penalty_bounds(2)[of d]
  apply (simp add: max_def)
  done

lemma tilted_status: "d \<le> 60 \<Longrightarrow> get_status (tilted d) = POSTURE_WARNING"
  unfolding get_status_def Let_def tilted_score
  by (simp add: duration_penalty_def)

text \<open>
  On the tilted analyzer: no alert after 10 seconds of bad posture, an alert after 40;
  no alert after the first, good tick of a fresh analyzer.
\<close>

theorem should_alert_debounced_witness:
  "\<not> should_alert (tilted 10) \<and> should_alert (tilted 40)
   \<and> \<not> should_alert (PostureAnalyzer_update (posture_analyzer_init 0) 1 (0, 0, 0) 50)"
proof -
  have s: "get_status (tilted 10) = POSTURE_WARNING" "get_status (tilted 40) = POSTURE_WARNING"
    by (simp_all add: tilted_status)
  have d: "current_bad_posture_duration (tilted 10) = 10"
    "current_bad_posture_duration (tilted 40) = 40"
    by (simp_all add: tilted_def)
  have u: "bad_posture_start_time (PostureAnalyzer_update (posture_analyzer_init 0) 1 (0, 0, 0) 50)
             = None"
    unfolding fresh_update by (simp add: posture_analyzer_init_def)
  from should_alert_debounced[of "tilted 10" 0 "(0, 0, 0)" 0]
    should_alert_debounced[of "tilted 40" 0 "(0, 0, 0)" 0]
    should_alert_debounced[of "posture_analyzer_init 0" 1 "(0, 0, 0)" 50]
  show ?thesis
    by (simp add: s d u)
qed

section \<open>Verified properties: aggregator\<close>

lemma check_and_send_alerts_counts:
  "escalation_checks (check_and_send_alerts hm now today e p st) = escalation_checks hm + 1"
  by (simp add: check_and_send_alerts_def Let_def)

lemma check_and_send_alerts_trackers:
  "eye_tracker (check_and_send_alerts hm now today e p st) = eye_tracker hm"
  "posture_analyzer (check_and_send_alerts hm now today e p st) = posture_analyzer hm"
  "screen_time_tracker (check_and_send_alerts hm now today e p st) = screen_time_tracker hm"
  "is_running (check_and_send_alerts hm now today e p st) = is_running hm"
  by (simp_all add: check_and_send_alerts_def Let_def)

lemma process_frame_Face:
  assumes "is_running hm"
  shows "fst (process_frame hm now today (Face l r pose d))
           = check_and_send_alerts (tracked hm now today l r pose d) now today
               (EyeTracker_get_metrics (eye_tracker (tracked hm now today l r pose d)) now)
               (PostureAnalyzer_get_metrics (posture_analyzer (tracked hm now today l r pose d)))
               (get_statistics (screen_time_tracker (tracked hm now today l r pose d)) now)"
    and "snd (process_frame hm now today (Face l r pose d)) \<noteq> None"
  using assms
  by (simp_all add: process_frame_def tracked_def Let_def)

lemma process_frame_NoFace:
  assumes "is_running hm"
  shows "fst (process_frame hm now today NoFace)
           = hm\<lparr>screen_time_tracker :=
                   ScreenTimeTracker_update (screen_time_tracker hm) now today False\<rparr>"
    and "\<exists>hs. snd (process_frame hm now today NoFace) = Some hs \<and> \<not> hs_is_calibrating hs
            \<and> \<not> hs_is_user_present hs \<and> hs_eye_metrics hs = None
            \<and> hs_posture_metrics hs = None \<and> overall_score hs = 100
            \<and> overall_status hs = GOOD"
  using assms
  by (simp_all add: process_frame_def Let_def)

lemma process_frame_Some:
  "snd (process_frame hm now today frame) \<noteq> None \<longleftrightarrow> is_running hm \<and> frame \<noteq> NoFrame"
  by (cases frame) (simp_all add: process_frame_def Let_def)

lemma pending_after_check:
  "pending_escalations (check_escalations a now) ty = Some et \<Longrightarrow> now < et"
  by (simp add: check_escalations_pending split: option.splits if_splits)

text \<open>
  Claim C9 as stated fails on absent ticks. The armed monitor holds a posture timer armed
  for second 1060. A tick at second 2000 without a face returns a snapshot, but the
  monitor has made no call of \<^verbatim>\<open>check_escalations\<close> and the timer is still armed; the call
  would have cleared it.
\<close>

theorem absent_tick_skips_escalation_counterexample:
  "snd (process_frame armed_monitor 2000 0 NoFace) \<noteq> None
   \<and> escalation_checks (fst (process_frame armed_monitor 2000 0 NoFace))
       = escalation_checks armed_monitor
   \<and> pending_escalations (alert_system (fst (process_frame armed_monitor 2000 0 NoFace))) POSTURE
       = Some 1060
   \<and> pending_escalations (check_escalations (alert_system armed_monitor) 2000) POSTURE = None"
proof -
  have r: "is_running armed_monitor" by (simp add: armed_monitor_def)
  have a: "alert_system armed_monitor = armed_engine" by (simp add: armed_monitor_def)
  have "snd (process_frame armed_monitor 2000 0 NoFace) \<noteq> None"
    using process_frame_NoFace(2)[OF r, of 2000 0] by auto
  moreover have "escalation_checks (fst (process_frame armed_monitor 2000 0 NoFace))
       = escalation_checks armed_monitor"
    by (simp add: process_frame_NoFace(1)[OF r])
  moreover have "pending_escalations (alert_system (fst (process_frame armed_monitor 2000 0 NoFace))) POSTURE
       = Some 1060"
    by (simp add: process_frame_NoFace(1)[OF r] a armed_engine_fields)
  moreover have "pending_escalations (check_escalations (alert_system armed_monitor) 2000) POSTURE = None"
    by (simp add: a check_escalations_pending armed_engine_fields)
  ultimately show ?thesis by (intro conjI)
qed

lemma check_and_send_alerts_engine:
  "alert_system (check_and_send_alerts hm now today e p st)
     = check_escalations (triggered_alerts hm now today e p st) now"
  by (simp add: check_and_send_alerts_def triggered_alerts_def Let_def split: option.splits)

lemma create_alert_counts:
  "escalation_counts (fst (create_alert s now today ty sev ttl msg recm)) = escalation_counts s"
  by (simp add: create_alert_def can_send_alert_def schedule_escalation_def Let_def
        split: prod.splits bool.splits)

lemma create_alert_other_timer:
  "ty \<noteq> k \<Longrightarrow>
     pending_escalations (fst (create_alert s now today ty sev ttl msg recm)) k
       = pending_escalations s k"
  by (simp add: create_alert_def can_send_alert_def schedule_escalation_def Let_def
        split: prod.splits bool.splits)

lemma create_alert_live:
  "live s r k \<Longrightarrow> live (fst (create_alert s now today ty sev ttl msg recm)) r k"
  by (auto simp add: live_def create_alert_def can_send_alert_def schedule_escalation_def
        Let_def nth_append split: prod.splits bool.splits if_splits)

lemma live_unacknowledged: "live s r k \<Longrightarrow> unacknowledged_of s k \<noteq> []"
  by (auto simp add: live_def unacknowledged_of_def filter_empty_conv)

lemma triggered_alerts_counts:
  "escalation_counts (triggered_alerts hm now today e p st) = escalation_counts (alert_system hm)"
  by (simp add: triggered_alerts_def Let_def create_eye_strain_alert_def
        create_posture_alert_def create_break_alert_def create_alert_counts
        split: option.splits)

lemma triggered_alerts_posture_timer:
  "\<not> should_alert (posture_analyzer hm) \<Longrightarrow>
     pending_escalations (triggered_alerts hm now today e p st) POSTURE
       = pending_escalations (alert_system hm) POSTURE"
  by (simp add: triggered_alerts_def Let_def create_eye_strain_alert_def
        create_break_alert_def create_alert_other_timer split: option.splits)

lemma triggered_alerts_live:
  "live (alert_system hm) r k \<Longrightarrow> live (triggered_alerts hm now today e p st) r k"
  by (simp add: triggered_alerts_def Let_def create_eye_strain_alert_def
        create_posture_alert_def create_break_alert_def create_alert_live
        split: option.splits)

lemma present_tick_engine_facts:
  "escalation_counts (present_tick_engine hm now today l r pose d)
     = escalation_counts (alert_system hm)"
  "live (alert_system hm) a k \<Longrightarrow> live (present_tick_engine hm now today l r pose d) a k"
  "\<not> should_alert (PostureAnalyzer_update (posture_analyzer hm) now pose d) \<Longrightarrow>
     pending_escalations (present_tick_engine hm now today l r pose d) POSTURE
       = pending_escalations (alert_system hm) POSTURE"
proof -
  have t: "alert_system (tracked hm now today l r pose d) = alert_system hm"
    "posture_analyzer (tracked hm now today l r pose d)
       = PostureAnalyzer_update (posture_analyzer hm) now pose d"
    by (simp_all add: tracked_def)
  show "escalation_counts (present_tick_engine hm now today l r pose d)
     = escalation_counts (alert_system hm)"
    by (simp add: present_tick_engine_def Let_def triggered_alerts_counts t)
  show "live (alert_system hm) a k \<Longrightarrow> live (present_tick_engine hm now today l r pose d) a k"
    unfolding present_tick_engine_def Let_def
    by (rule triggered_alerts_live) (simp add: t)
  show "\<not> should_alert (PostureAnalyzer_update (posture_analyzer hm) now pose d) \<Longrightarrow>
     pending_escalations (present_tick_engine hm now today l r pose d) POSTURE
       = pending_escalations (alert_system hm) POSTURE"
    unfolding present_tick_engine_def Let_def
    by (simp add: triggered_alerts_posture_timer t)
qed

lemma process_frame_Face_engine:
  assumes "is_running hm"
  shows "alert_system (fst (process_frame hm now today (Face l r pose d)))
           = check_escalations (present_tick_engine hm now today l r pose d) now"
  unfolding process_frame_Face(1)[OF assms] check_and_send_alerts_engine
    present_tick_engine_def Let_def
  by (rule refl)

lemma late_sample:
  "record_sample (posture_analyzer_init 0) 2000 (0, 0, 0) 50
     = (posture_analyzer_init 0)
         \<lparr> pitch_history := [0], yaw_history := [0], roll_history := [0],
           distance_history := [50], posture_is_calibrating := False \<rparr>"
  by (simp add: record_sample_def posture_analyzer_init_def deque_append_def Let_def
        posture_calibration_duration_def PostureAnalyzer_complete_calibration_def)

lemma late_sample_good:
  "get_status (record_sample (posture_analyzer_init 0) 2000 (0, 0, 0) 50) = POSTURE_GOOD"
proof -
  have "calculate_posture_score (record_sample (posture_analyzer_init 0) 2000 (0, 0, 0) 50) = 100"
    unfolding late_sample posture_score_sum
    apply (simp only: get_smoothed_values_def posture_analyzer_init_def Let_def)
    apply (simp add: mean_def or_zero_def)
    apply (simp add: pitch_penalty_def roll_penalty_def yaw_penalty_def distance_penalty_def
             duration_penalty_def)
    done
  then show ?thesis by (simp add: get_status_def)
qed

lemma good_tick_no_alert:
  assumes "get_status (record_sample s now pose d) = POSTURE_GOOD"
  shows "\<not> should_alert (PostureAnalyzer_update s now pose d)"
proof -
  have "current_bad_posture_duration (PostureAnalyzer_update s now pose d) = 0"
    unfolding PostureAnalyzer_update_split good_posture_tick[OF assms] by simp
  then show ?thesis
    by (simp add: should_alert_def BAD_POSTURE_ALERT_THRESHOLD_def)
qed

lemma armed_engine_live: "live armed_engine 0 POSTURE"
  by (simp add: live_def armed_engine_fields)

text \<open>
  Claim C9, amended. A tick returns a snapshot exactly when the monitor is running and a
  frame was read. On such a tick with the face present \<^verbatim>\<open>check_escalations\<close> is invoked
  exactly once, as the last step: the engine after the tick is \<^verbatim>\<open>check_escalations\<close>
  applied to the engine the triggers left. So no timer that is due remains armed, and
  the escalation count of a type is one higher than before the tick exactly if its
  timer was due and an unacknowledged active alert of the type existed, and unchanged
  otherwise. On such a tick with the face absent it is not invoked, and the alert
  engine is left as it was.
\<close>

theorem escalations_checked_on_present_ticks:
  "(snd (process_frame hm now today frame) \<noteq> None \<longleftrightarrow> is_running hm \<and> frame \<noteq> NoFrame)
   \<and> (is_running hm \<longrightarrow>
        escalation_checks (fst (process_frame hm now today (Face l r pose d)))
          = escalation_checks hm + 1
        \<and> alert_system (fst (process_frame hm now today (Face l r pose d)))
          = check_escalations (present_tick_engine hm now today l r pose d) now
        \<and> (pending_escalations
               (alert_system (fst (process_frame hm now today (Face l r pose d)))) ty = Some et
             \<longrightarrow> now < et)
        \<and> dict_get (escalation_counts
               (alert_system (fst (process_frame hm now today (Face l r pose d))))) ty 0
          = dict_get (escalation_counts (alert_system hm)) ty 0
            + (if \<exists>t. pending_escalations (present_tick_engine hm now today l r pose d) ty = Some t
                      \<and> t \<le> now
                      \<and> unacknowledged_of (present_tick_engine hm now today l r pose d) ty \<noteq> []
               then 1 else 0))
   \<and> (is_running hm \<longrightarrow>
        escalation_checks (fst (process_frame hm now today NoFace)) = escalation_checks hm
        \<and> alert_system (fst (process_frame hm now today NoFace)) = alert_system hm)"
proof -
  have s: "snd (process_frame hm now today frame) \<noteq> None \<longleftrightarrow> is_running hm \<and> frame \<noteq> NoFrame"
    by (rule process_frame_Some)
  have p: "is_running hm \<longrightarrow>
        escalation_checks (fst (process_frame hm now today (Face l r pose d)))
          = escalation_checks hm + 1
        \<and> alert_system (fst (process_frame hm now today (Face l r pose d)))
          = check_escalations (present_tick_engine hm now today l r pose d) now
        \<and> (pending_escalations
               (alert_system (fst (process_frame hm now today (Face l r pose d)))) ty = Some et
             \<longrightarrow> now < et)
        \<and> dict_get (escalation_counts
               (alert_system (fst (process_frame hm now today (Face l r pose d))))) ty 0
          = dict_get (escalation_counts (alert_system hm)) ty 0
            + (if \<exists>t. pending_escalations (present_tick_engine hm now today l r pose d) ty = Some t
                      \<and> t \<le> now
                      \<and> unacknowledged_of (present_tick_engine hm now today l r pose d) ty \<noteq> []
               then 1 else 0)"
  proof
    assume r: "is_running hm"
    note f = process_frame_Face(1)[OF r, of now today l r pose d]
    have c: "escalation_checks (fst (process_frame hm now today (Face l r pose d)))
          = escalation_checks hm + 1"
      unfolding f check_and_send_alerts_counts by (simp add: tracked_def)
    note a = process_frame_Face_engine[OF r, of now today l r pose d]
    have e: "pending_escalations
               (alert_system (fst (process_frame hm now today (Face l r pose d)))) ty = Some et
             \<longrightarrow> now < et"
      unfolding a by (rule impI) (rule pending_after_check)
    have n: "dict_get (escalation_counts
               (alert_system (fst (process_frame hm now today (Face l r pose d))))) ty 0
          = dict_get (escalation_counts (alert_system hm)) ty 0
            + (if \<exists>t. pending_escalations (present_tick_engine hm now today l r pose d) ty = Some t
                      \<and> t \<le> now
                      \<and> unacknowledged_of (present_tick_engine hm now today l r pose d) ty \<noteq> []
               then 1 else 0)"
      unfolding a check_escalations_count present_tick_engine_facts(1) by (rule refl)
    from c a e n show "escalation_checks (fst (process_frame hm now today (Face l r pose d)))
          = escalation_checks hm + 1
        \<and> alert_system (fst (process_frame hm now today (Face l r pose d)))
          = check_escalations (present_tick_engine hm now today l r pose d) now
        \<and> (pending_escalations
               (alert_system (fst (process_frame hm now today (Face l r pose d)))) ty = Some et
             \<longrightarrow> now < et)
        \<and> dict_get (escalation_counts
               (alert_system (fst (process_frame hm now today (Face l r pose d))))) ty 0
          = dict_get (escalation_counts (alert_system hm)) ty 0
            + (if \<exists>t. pending_escalations (present_tick_engine hm now today l r pose d) ty = Some t
                      \<and> t \<le> now
                      \<and> unacknowledged_of (present_tick_engine hm now today l r pose d) ty \<noteq> []
               then 1 else 0)"
      by (intro conjI)
  qed
  have n: "is_running hm \<longrightarrow>
        escalation_checks (fst (process_frame hm now today NoFace)) = escalation_checks hm
        \<and> alert_system (fst (process_frame hm now today NoFace)) = alert_system hm"
    by (simp add: process_frame_NoFace(1))
  from s p n show ?thesis by (intro conjI)
qed

text \<open>
  On the armed monitor at second 2000: a present tick makes the first call, the posture
  timer of second 1060 is cleared and the posture escalation count goes from 0 to 1; an
  absent tick returns a snapshot and makes no call.
\<close>

theorem escalations_checked_on_present_ticks_witness:
  "escalation_checks (fst (process_frame armed_monitor 2000 0 (Face 0.3 0.3 (0, 0, 0) 50))) = 1
   \<and> dict_get (escalation_counts (alert_system armed_monitor)) POSTURE 0 = 0
   \<and> dict_get (escalation_counts
          (alert_system (fst (process_frame armed_monitor 2000 0 (Face 0.3 0.3 (0, 0, 0) 50)))))
          POSTURE 0 = 1
   \<and> pending_escalations
         (alert_system (fst (process_frame armed_monitor 2000 0 (Face 0.3 0.3 (0, 0, 0) 50))))
         POSTURE = None
   \<and> escalation_checks (fst (process_frame armed_monitor 2000 0 NoFace)) = 0
   \<and> snd (process_frame armed_monitor 2000 0 NoFace) \<noteq> None"
proof -
  let ?T = "present_tick_engine armed_monitor 2000 0 0.3 0.3 (0, 0, 0) 50"
  have r: "is_running armed_monitor" "escalation_checks armed_monitor = 0"
    "alert_system armed_monitor = armed_engine"
    "posture_analyzer armed_monitor = posture_analyzer_init 0"
    by (simp_all add: armed_monitor_def health_monitor_init_def)
  have quiet: "\<not> should_alert (PostureAnalyzer_update (posture_analyzer armed_monitor) 2000 (0, 0, 0) 50)"
    unfolding r(4) by (rule good_tick_no_alert) (rule late_sample_good)
  have timer: "pending_escalations ?T POSTURE = Some 1060"
    using present_tick_engine_facts(3)[OF quiet, where today = 0 and l = "0.3" and r = "0.3"]
    by (simp add: r(3) armed_engine_fields)
  have unack: "unacknowledged_of ?T POSTURE \<noteq> []"
    by (rule live_unacknowledged[of _ 0])
       (rule present_tick_engine_facts(2), simp add: r(3) armed_engine_live)
  have before: "dict_get (escalation_counts (alert_system armed_monitor)) POSTURE 0 = 0"
    by (simp add: r(3) armed_engine_fields)
  note t = escalations_checked_on_present_ticks[of armed_monitor 2000 0 NoFace
             "0.3" "0.3" "(0, 0, 0)" 50 POSTURE 1060]
  from t r(1) have eng: "alert_system (fst (process_frame armed_monitor 2000 0 (Face 0.3 0.3 (0, 0, 0) 50)))
          = check_escalations ?T 2000" by blast
  have gone: "pending_escalations
         (alert_system (fst (process_frame armed_monitor 2000 0 (Face 0.3 0.3 (0, 0, 0) 50))))
         POSTURE = None"
    unfolding eng check_escalations_pending by (simp add: timer)
  from t r(1) r(2) timer unack before gone show ?thesis by auto
qed

text \<open>
  Claim C10. On every tick where no face is detected, the returned snapshot has
  \<^verbatim>\<open>is_calibrating\<close> false, and the eye tracker and posture analyzer are not touched, so
  this holds also while they are still calibrating; both start calibrating at
  construction.
\<close>

theorem absent_tick_not_calibrating:
  "(process_frame hm now today NoFace = (hm', Some hs) \<longrightarrow> \<not> hs_is_calibrating hs)
   \<and> (is_running hm \<longrightarrow>
        (\<exists>hs. snd (process_frame hm now today NoFace) = Some hs \<and> \<not> hs_is_calibrating hs)
        \<and> eye_tracker (fst (process_frame hm now today NoFace)) = eye_tracker hm
        \<and> posture_analyzer (fst (process_frame hm now today NoFace)) = posture_analyzer hm)
   \<and> eye_is_calibrating (eye_tracker (health_monitor_init t0 today))
   \<and> posture_is_calibrating (posture_analyzer (health_monitor_init t0 today))"
proof -
  have a: "process_frame hm now today NoFace = (hm', Some hs) \<longrightarrow> \<not> hs_is_calibrating hs"
  proof
    assume h: "process_frame hm now today NoFace = (hm', Some hs)"
    then have "snd (process_frame hm now today NoFace) \<noteq> None" by simp
    then have r: "is_running hm"
      using process_frame_Some[of hm now today NoFace] by blast
    from process_frame_NoFace(2)[OF r, of now today] h
    show "\<not> hs_is_calibrating hs" by auto
  qed
  have b: "is_running hm \<longrightarrow>
        (\<exists>hs. snd (process_frame hm now today NoFace) = Some hs \<and> \<not> hs_is_calibrating hs)
        \<and> eye_tracker (fst (process_frame hm now today NoFace)) = eye_tracker hm
        \<and> posture_analyzer (fst (process_frame hm now today NoFace)) = posture_analyzer hm"
  proof
    assume r: "is_running hm"
    from process_frame_NoFace(2)[OF r, of now today]
    have "\<exists>hs. snd (process_frame hm now today NoFace) = Some hs \<and> \<not> hs_is_calibrating hs"
      by blast
    then show "(\<exists>hs. snd (process_frame hm now today NoFace) = Some hs \<and> \<not> hs_is_calibrating hs)
        \<and> eye_tracker (fst (process_frame hm now today NoFace)) = eye_tracker hm
        \<and> posture_analyzer (fst (process_frame hm now today NoFace)) = posture_analyzer hm"
      by (simp add: process_frame_NoFace(1)[OF r])
  qed
  have c: "eye_is_calibrating (eye_tracker (health_monitor_init t0 today))
        \<and> posture_is_calibrating (posture_analyzer (health_monitor_init t0 today))"
    by (simp add: health_monitor_init_def eye_tracker_init_def posture_analyzer_init_def)
  from a b c show ?thesis by (intro conjI) simp_all
qed

text \<open>
  One second after construction both trackers are still calibrating, and the snapshot
  of an absent tick says \<^verbatim>\<open>is_calibrating = False\<close>.
\<close>

theorem absent_tick_not_calibrating_witness:
  "eye_is_calibrating (eye_tracker (fst (process_frame fresh_monitor 1 0 NoFace)))
   \<and> posture_is_calibrating (posture_analyzer (fst (process_frame fresh_monitor 1 0 NoFace)))
   \<and> (\<exists>hs. snd (process_frame fresh_monitor 1 0 NoFace) = Some hs \<and> \<not> hs_is_calibrating hs)"
proof -
  have r: "is_running fresh_monitor" by (simp add: fresh_monitor_def)
  have e: "eye_tracker fresh_monitor = eye_tracker (health_monitor_init 0 0)"
    "posture_analyzer fresh_monitor = posture_analyzer (health_monitor_init 0 0)"
    by (simp_all add: fresh_monitor_def)
  from absent_tick_not_calibrating[of fresh_monitor 1 0
         "fst (process_frame fresh_monitor 1 0 NoFace)"
         "the (snd (process_frame fresh_monitor 1 0 NoFace))" 0] r e
  show ?thesis by simp
qed

end
